theory Spec2Isabelle
  imports Complex_Main "HOL-Library.Multiset"
begin

section \<open>Python values, exceptions and records of the source API\<close>

text \<open>
  The cursors of the Duo iterators are dynamically typed: \<open>min_time\<close> is an int or
  \<open>None\<close>, \<open>next_offset\<close> a string or \<open>None\<close>. They are kept as Python values, with
  Python's truth test, so that \<open>if self.next_offset:\<close> and \<open>min_time if min_time else 0\<close>
  are translated as written.
\<close>

datatype pyval = PNone | PInt int | PStr string

fun truthy :: "pyval \<Rightarrow> bool" where
  "truthy PNone = False"
| "truthy (PInt n) = (n \<noteq> 0)"
| "truthy (PStr s) = (s \<noteq> [])"

text \<open>
  A Python \<open>dict\<close> with string keys (keyword arguments, a stored checkpoint) is an
  association list in insertion order; \<open>d.get(k)\<close> is \<open>None\<close> for a missing key.
\<close>

type_synonym pydict = "(string \<times> pyval) list"

definition dict_get :: "pydict \<Rightarrow> string \<Rightarrow> pyval" where
  "dict_get d k = (case map_of d k of None \<Rightarrow> PNone | Some v \<Rightarrow> v)"

text \<open>
  Exceptions: \<open>StopIteration\<close> ends an iterator; every other exception of the
  \<open>Exception\<close> hierarchy (raised by the Duo client, by the intake forwarder, or by the
  interpreter, such as the \<open>TypeError\<close> of \<open>len(None)\<close>) is an \<open>Error\<close> with its name.
\<close>

datatype exn = StopIteration | Error string

text \<open>
  An event of the Duo Admin API is a dict; the iterators read its integer
  \<open>timestamp\<close> only, the consumer sets \<open>eventtype\<close>, and the other fields are carried
  along untouched.
\<close>

datatype LogType = ADMINISTRATION | AUTHENTICATION | TELEPHONY | OFFLINE

record event =
  timestamp :: int
  eventtype :: "LogType option"
  payload :: "(string \<times> string) list"

text \<open>
  The response of a version 2 endpoint is a dict that holds the page under an
  endpoint-specific key and, under \<open>metadata\<close>, a dict with the \<open>next_offset\<close>.
\<close>

record v2_response =
  resp_lists :: "string \<rightharpoonup> event list"
  resp_metadata :: "pydict option"

subsection \<open>\<open>str\<close> of an int, list slicing\<close>

fun str_nat :: "nat \<Rightarrow> string" where
  "str_nat n =
     (if n < 10 then [''0123456789'' ! n]
      else str_nat (n div 10) @ [''0123456789'' ! (n mod 10)])"

declare str_nat.simps [simp del]

definition str_int :: "int \<Rightarrow> string" where
  "str_int i = (if i < 0 then CHR ''-'' # str_nat (nat (- i)) else str_nat (nat i))"

text \<open>
  \<open>xs[:n]\<close>: the first \<open>n\<close> elements, and for a negative \<open>n\<close> all but the last \<open>-n\<close>.
\<close>

definition slice_to :: "'a list \<Rightarrow> int \<Rightarrow> 'a list" where
  "slice_to xs n =
     (if 0 \<le> n then take (nat n) xs else take (length xs - nat (- n)) xs)"

section \<open>The iterators (duo/iterators.py)\<close>

text \<open>
  An iterator holds the source call \<open>func\<close> and the optional \<open>callback\<close>; both act on
  the state \<open>'w\<close> of the world outside the iterator. The source call may raise.
\<close>

record 'w DuoV1LogsIterator =
  func :: "pydict \<Rightarrow> 'w \<Rightarrow> (exn + event list) \<times> 'w"
  min_time :: pyval
  limit :: int
  callback :: "(pydict \<Rightarrow> 'w \<Rightarrow> 'w) option"

definition DuoV1LogsIterator_init ::
  "(pydict \<Rightarrow> 'w \<Rightarrow> (exn + event list) \<times> 'w) \<Rightarrow> pyval \<Rightarrow> int \<Rightarrow>
   (pydict \<Rightarrow> 'w \<Rightarrow> 'w) option \<Rightarrow> 'w DuoV1LogsIterator" where
  "DuoV1LogsIterator_init f mt n cb =
     \<lparr>func = f, min_time = (if truthy mt then mt else PInt 0), limit = n, callback = cb\<rparr>"

text \<open>
  \<open>__next__\<close> returns the page or the exception, the iterator and the world after
  the call.
\<close>

definition DuoV1LogsIterator_next ::
  "'w DuoV1LogsIterator \<Rightarrow> 'w \<Rightarrow> (exn + event list) \<times> 'w DuoV1LogsIterator \<times> 'w" where
  "DuoV1LogsIterator_next self w =
     (case func self [(''mintime'', min_time self)] w of
        (Inl e, w1) \<Rightarrow> (Inl e, self, w1)
      | (Inr fetched, w1) \<Rightarrow>
          (let events = slice_to (sort_key timestamp fetched) (limit self)
           in if length events > 0 then
                (let self' = self\<lparr>min_time := PInt (timestamp (last events) + 1)\<rparr>;
                     w2 = (case callback self of
                             Some cb \<Rightarrow> cb [(''min_time'', min_time self')] w1
                           | None \<Rightarrow> w1)
                 in (Inr events, self', w2))
              else (Inl StopIteration, self, w1)))"

record 'w DuoV2LogsIterator =
  ITEMS_FIELD :: string
  func2 :: "pydict \<Rightarrow> 'w \<Rightarrow> (exn + v2_response) \<times> 'w"
  callback2 :: "(pydict \<Rightarrow> 'w \<Rightarrow> 'w) option"
  min_time2 :: pyval
  next_offset :: pyval
  limit2 :: int

text \<open>
  \<open>__init__(self, func, **kwargs)\<close>: the cursors are \<open>kwargs.get\<close> of their keys, the
  limit defaults to 1000 when the key is absent.
\<close>

definition DuoV2LogsIterator_init ::
  "string \<Rightarrow> (pydict \<Rightarrow> 'w \<Rightarrow> (exn + v2_response) \<times> 'w) \<Rightarrow>
   (pydict \<Rightarrow> 'w \<Rightarrow> 'w) option \<Rightarrow> pydict \<Rightarrow> int option \<Rightarrow> 'w DuoV2LogsIterator" where
  "DuoV2LogsIterator_init field f cb kwargs n =
     \<lparr>ITEMS_FIELD = field, func2 = f, callback2 = cb,
      min_time2 = dict_get kwargs ''min_time'',
      next_offset = dict_get kwargs ''next_offset'',
      limit2 = (case n of None \<Rightarrow> 1000 | Some l \<Rightarrow> l)\<rparr>"

definition v2_request :: "'w DuoV2LogsIterator \<Rightarrow> pydict" where
  "v2_request self =
     (if truthy (next_offset self) then
        [(''next_offset'', next_offset self), (''api_version'', PInt 2),
         (''limit'', PStr (str_int (limit2 self))), (''sort'', PStr ''ts:asc'')]
      else
        [(''mintime'', min_time2 self), (''api_version'', PInt 2),
         (''limit'', PStr (str_int (limit2 self))), (''sort'', PStr ''ts:asc'')])"

definition DuoV2LogsIterator_next ::
  "'w DuoV2LogsIterator \<Rightarrow> 'w \<Rightarrow> (exn + event list) \<times> 'w DuoV2LogsIterator \<times> 'w" where
  "DuoV2LogsIterator_next self w =
     (case func2 self (v2_request self) w of
        (Inl e, w1) \<Rightarrow> (Inl e, self, w1)
      | (Inr response, w1) \<Rightarrow>
          (let events = resp_lists response (ITEMS_FIELD self);
               response_metadata = (case resp_metadata response of None \<Rightarrow> [] | Some m \<Rightarrow> m);
               offset = dict_get response_metadata ''next_offset'';
               self' = (if truthy offset then self\<lparr>next_offset := offset\<rparr> else self);
               w2 = (if truthy offset then
                       (case callback2 self of
                          Some cb \<Rightarrow> cb [(''next_offset'', offset)] w1
                        | None \<Rightarrow> w1)
                     else w1)
           in case events of
                None \<Rightarrow> (Inl (Error ''TypeError''), self', w2)
              | Some evs \<Rightarrow>
                  if length evs = 0 then (Inl StopIteration, self', w2)
                  else (Inr evs, self', w2)))"

section \<open>The consumer thread (duo/consumer.py)\<close>

text \<open>
  What a consumer thread can observe and change: the wall clock (\<open>time.time()\<close>),
  the connector's persisted \<open>context\<close> (the checkpoint store, a dict from the log
  type's value to the stored dict), the moment at which another thread calls
  \<open>stop()\<close> (if it ever does), and the calls it makes to its collaborators, kept in
  order in a journal.
\<close>

datatype effect =
    Call LogType pydict
  | Save string pydict
  | Push "string list"
  | Sleep int
  | Log string string
  | LogException exn string
  | Incoming nat
  | Outcoming nat
  | Observe int

record world =
  clock :: rat
  cache :: "string \<rightharpoonup> pydict"
  stop_at :: "rat option"
  calls :: nat
  journal :: "effect list"

text \<open>
  The collaborators are outside the repository: the Duo Admin client's four
  endpoints, the intake forwarder, the JSON serialiser, and the enum \<open>LogType\<close>
  (declared in \<^verbatim>\<open>duo/__init__.py\<close>, whose values are therefore a parameter). A call
  of a collaborator is answered by the environment: the answer to the \<open>n\<close>-th call
  is the time the call takes and what it returns or raises.
\<close>

record env =
  get_log_v1 :: "LogType \<Rightarrow> nat \<Rightarrow> pydict \<Rightarrow> rat \<times> (exn + event list)"
  get_log_v2 :: "LogType \<Rightarrow> nat \<Rightarrow> pydict \<Rightarrow> rat \<times> (exn + v2_response)"
  push_events_to_intakes :: "nat \<Rightarrow> string list \<Rightarrow> rat \<times> (exn + unit)"
  orjson_dumps :: "event \<Rightarrow> string"
  LogType_value :: "LogType \<Rightarrow> string"

record DuoLogsConsumer =
  log_type :: LogType
  frequency :: int
  chunk_size :: int

text \<open>
  A call of a collaborator advances the clock by the time the environment gives it
  and is entered in the journal; \<open>time.sleep(n)\<close> lasts \<open>n\<close> seconds; the
  statements of the consumer itself take no time.
\<close>

definition emit :: "effect \<Rightarrow> world \<Rightarrow> world" where
  "emit x w = w\<lparr>journal := journal w @ [x]\<rparr>"

definition client_call_v1 ::
  "env \<Rightarrow> LogType \<Rightarrow> pydict \<Rightarrow> world \<Rightarrow> (exn + event list) \<times> world" where
  "client_call_v1 E lt kwargs w =
     (case get_log_v1 E lt (calls w) kwargs of
        (d, r) \<Rightarrow> (r, emit (Call lt kwargs) (w\<lparr>clock := clock w + d, calls := calls w + 1\<rparr>)))"

definition client_call_v2 ::
  "env \<Rightarrow> LogType \<Rightarrow> pydict \<Rightarrow> world \<Rightarrow> (exn + v2_response) \<times> world" where
  "client_call_v2 E lt kwargs w =
     (case get_log_v2 E lt (calls w) kwargs of
        (d, r) \<Rightarrow> (r, emit (Call lt kwargs) (w\<lparr>clock := clock w + d, calls := calls w + 1\<rparr>)))"

definition forward :: "env \<Rightarrow> string list \<Rightarrow> world \<Rightarrow> (exn + unit) \<times> world" where
  "forward E batch w =
     (case push_events_to_intakes E (calls w) batch of
        (d, r) \<Rightarrow> (r, emit (Push batch) (w\<lparr>clock := clock w + d, calls := calls w + 1\<rparr>)))"

definition sleep :: "int \<Rightarrow> world \<Rightarrow> world" where
  "sleep n w = emit (Sleep n) (w\<lparr>clock := clock w + of_int n\<rparr>)"

fun LogType_name :: "LogType \<Rightarrow> string" where
  "LogType_name ADMINISTRATION = ''ADMINISTRATION''"
| "LogType_name AUTHENTICATION = ''AUTHENTICATION''"
| "LogType_name TELEPHONY = ''TELEPHONY''"
| "LogType_name OFFLINE = ''OFFLINE''"

definition log_label :: "DuoLogsConsumer \<Rightarrow> string" where
  "log_label self = LogType_name (log_type self)"

definition running :: "world \<Rightarrow> bool" where
  "running w = (case stop_at w of None \<Rightarrow> True | Some t \<Rightarrow> clock w < t)"

definition load_checkpoint :: "env \<Rightarrow> DuoLogsConsumer \<Rightarrow> world \<Rightarrow> pydict" where
  "load_checkpoint E self w =
     (case cache w (LogType_value E (log_type self)) of
        None \<Rightarrow> [(''min_time'', PNone), (''next_offset'', PNone)]
      | Some d \<Rightarrow> d)"

definition save_checkpoint :: "env \<Rightarrow> DuoLogsConsumer \<Rightarrow> pydict \<Rightarrow> world \<Rightarrow> world" where
  "save_checkpoint E self offset w =
     (let key = LogType_value E (log_type self)
      in emit (Save key offset) (w\<lparr>cache := (cache w)(key \<mapsto> offset)\<rparr>))"

datatype 'w iterator = V1 "'w DuoV1LogsIterator" | V2 "'w DuoV2LogsIterator"

definition AdminLogsIterator ::
  "env \<Rightarrow> pyval \<Rightarrow> int \<Rightarrow> (pydict \<Rightarrow> world \<Rightarrow> world) option \<Rightarrow> world DuoV1LogsIterator" where
  "AdminLogsIterator E mt n cb = DuoV1LogsIterator_init (client_call_v1 E ADMINISTRATION) mt n cb"

definition OfflineLogsIterator ::
  "env \<Rightarrow> pyval \<Rightarrow> int \<Rightarrow> (pydict \<Rightarrow> world \<Rightarrow> world) option \<Rightarrow> world DuoV1LogsIterator" where
  "OfflineLogsIterator E mt n cb = DuoV1LogsIterator_init (client_call_v1 E OFFLINE) mt n cb"

definition AuthLogsIterator ::
  "env \<Rightarrow> (pydict \<Rightarrow> world \<Rightarrow> world) option \<Rightarrow> pydict \<Rightarrow> int option \<Rightarrow>
   world DuoV2LogsIterator" where
  "AuthLogsIterator E cb kwargs n =
     DuoV2LogsIterator_init ''authlogs'' (client_call_v2 E AUTHENTICATION) cb kwargs n"

definition TelephonyLogsIterator ::
  "env \<Rightarrow> (pydict \<Rightarrow> world \<Rightarrow> world) option \<Rightarrow> pydict \<Rightarrow> int option \<Rightarrow>
   world DuoV2LogsIterator" where
  "TelephonyLogsIterator E cb kwargs n =
     DuoV2LogsIterator_init ''items'' (client_call_v2 E TELEPHONY) cb kwargs n"

text \<open>
  \<open>get_events_iterator\<close> builds the iterator of the consumer's log type from the
  loaded checkpoint. Its last line, \<open>raise NotImplementedError\<close>, is for a log type
  other than the four it tests for; \<open>LogType\<close> has no other member here.
\<close>

definition get_events_iterator :: "env \<Rightarrow> DuoLogsConsumer \<Rightarrow> world \<Rightarrow> world iterator" where
  "get_events_iterator E self w =
     (let last_checkpoint = load_checkpoint E self w
      in case log_type self of
           ADMINISTRATION \<Rightarrow>
             V1 (AdminLogsIterator E (dict_get last_checkpoint ''min_time'') (chunk_size self)
                   (Some (save_checkpoint E self)))
         | AUTHENTICATION \<Rightarrow>
             V2 (AuthLogsIterator E (Some (save_checkpoint E self))
                   [(''min_time'', dict_get last_checkpoint ''min_time''),
                    (''next_offset'', dict_get last_checkpoint ''next_offset'')]
                   (Some (chunk_size self)))
         | TELEPHONY \<Rightarrow>
             V2 (TelephonyLogsIterator E (Some (save_checkpoint E self))
                   [(''min_time'', dict_get last_checkpoint ''min_time''),
                    (''next_offset'', dict_get last_checkpoint ''next_offset'')]
                   (Some (chunk_size self)))
         | OFFLINE \<Rightarrow>
             V1 (OfflineLogsIterator E (dict_get last_checkpoint ''min_time'') (chunk_size self)
                   (Some (save_checkpoint E self))))"

fun iterator_next :: "'w iterator \<Rightarrow> 'w \<Rightarrow> (exn + event list) \<times> 'w iterator \<times> 'w" where
  "iterator_next (V1 it) w =
     (case DuoV1LogsIterator_next it w of (r, it', w') \<Rightarrow> (r, V1 it', w'))"
| "iterator_next (V2 it) w =
     (case DuoV2LogsIterator_next it w of (r, it', w') \<Rightarrow> (r, V2 it', w'))"

text \<open>\<open>int(x)\<close> of a float truncates towards zero.\<close>

definition py_int :: "rat \<Rightarrow> int" where
  "py_int x = (if 0 \<le> x then \<lfloor>x\<rfloor> else \<lceil>x\<rceil>)"

text \<open>
  The body of the \<open>for\<close> loop of \<open>fetch_batches\<close> for one page. The page has been
  fetched when the body starts: \<open>batch_start_time\<close> is read after
  \<open>__next__\<close> has returned.
\<close>

definition forward_page ::
  "env \<Rightarrow> DuoLogsConsumer \<Rightarrow> event list \<Rightarrow> world \<Rightarrow> (exn + unit) \<times> world" where
  "forward_page E self fetched w =
     (let batch_start_time = clock w;
          events = map (\<lambda>e. e\<lparr>eventtype := Some (log_type self)\<rparr>) fetched;
          batch_of_events = map (orjson_dumps E) events;
          w1 = emit (Incoming (length events)) w
      in case (if length batch_of_events > 0 then forward E batch_of_events w1
               else (Inr (), w1)) of
           (Inl e, w2) \<Rightarrow> (Inl e, w2)
         | (Inr _, w2) \<Rightarrow>
             (let batch_end_time = clock w2;
                  batch_duration = py_int (batch_end_time - batch_start_time);
                  w3 = emit (Log (''Fetched and forwarded '' @ str_nat (length batch_of_events)
                                  @ '' '' @ log_label self @ '' events in ''
                                  @ str_int batch_duration @ '' seconds'') ''info'') w2;
                  w4 = emit (Outcoming (length events)) w3;
                  w5 = emit (Observe batch_duration) w4;
                  delta_sleep = frequency self - batch_duration
              in if delta_sleep > 0 then
                   (Inr (), sleep delta_sleep
                      (emit (Log (''Next batch of '' @ log_label self
                                  @ '' events in the future. Waiting ''
                                  @ str_int delta_sleep @ '' seconds'') ''info'') w5))
                 else (Inr (), w5)))"

text \<open>
  The \<open>for\<close> loop: it ends on \<open>StopIteration\<close> of \<open>__next__\<close>, and any other
  exception of \<open>__next__\<close> or of the body leaves it. A source that never runs dry
  keeps it going for ever: then there is no result.
\<close>

partial_function (option) for_events ::
  "env \<Rightarrow> DuoLogsConsumer \<Rightarrow> world iterator \<Rightarrow> nat \<Rightarrow> world \<Rightarrow> ((exn + nat) \<times> world) option"
where
  "for_events E self it total_num_of_events w =
     (case iterator_next it w of
        (Inl StopIteration, it', w1) \<Rightarrow> Some (Inr total_num_of_events, w1)
      | (Inl (Error x), it', w1) \<Rightarrow> Some (Inl (Error x), w1)
      | (Inr events, it', w1) \<Rightarrow>
          (case forward_page E self events w1 of
             (Inl e, w2) \<Rightarrow> Some (Inl e, w2)
           | (Inr _, w2) \<Rightarrow>
               for_events E self it' (total_num_of_events + length events) w2))"

definition fetch_batches ::
  "env \<Rightarrow> DuoLogsConsumer \<Rightarrow> world \<Rightarrow> ((exn + unit) \<times> world) option" where
  "fetch_batches E self w =
     (case for_events E self (get_events_iterator E self w) 0 w of
        None \<Rightarrow> None
      | Some (Inl e, w1) \<Rightarrow> Some (Inl e, w1)
      | Some (Inr total_num_of_events, w1) \<Rightarrow>
          if total_num_of_events = 0 then
            Some (Inr (), sleep (frequency self)
                    (emit (Log (''No new '' @ log_label self @ '' events. Waiting ''
                                @ str_int (frequency self) @ '' seconds'') ''info'') w1))
          else Some (Inr (), w1))"

text \<open>
  \<open>run\<close>: the loop tests \<open>self.running\<close> before each pass; an exception of a pass
  is logged and ends the method.
\<close>

partial_function (option) run :: "env \<Rightarrow> DuoLogsConsumer \<Rightarrow> world \<Rightarrow> world option" where
  "run E self w =
     (if running w then
        Option.bind (fetch_batches E self w)
          (\<lambda>r. case r of
                  (Inl error, w1) \<Rightarrow>
                    Some (emit (LogException error
                                  (''Failed to forward '' @ log_label self @ '' events'')) w1)
                | (Inr _, w1) \<Rightarrow> run E self w1)
      else Some w)"

section \<open>The blob scanner (connectors/azure_blob.py, known from its tests)\<close>

text \<open>
  The sources hold the tests of \<open>AzureBlobConnector\<close> only. Its three operations are
  modelled from the specification. Dates are whole seconds since the epoch: the
  tests cut every date to the second.
\<close>

record BlobProperties =
  name :: string
  last_modified :: int

text \<open>
  Modelled from the spec: the property \<open>last_event_date\<close> of \<open>AzureBlobConnector\<close>
  (connectors/azure_blob.py is not among the sources). The effective watermark is the
  checkpoint value, with the default now - 1 hour when there is no checkpoint.
\<close>

definition last_event_date :: "int \<Rightarrow> int option \<Rightarrow> int" where
  "last_event_date now cached =
     (case cached of
        None \<Rightarrow> now - 3600
      | Some t \<Rightarrow> t)"

text \<open>
  Modelled from the spec: the generator \<open>get_most_recent_blobs\<close> of
  \<open>AzureBlobConnector\<close> (not among the sources): it walks the container's listing and
  yields the blobs with \<open>last_modified > lower_bound\<close>.
\<close>

fun get_most_recent_blobs :: "int \<Rightarrow> BlobProperties list \<Rightarrow> BlobProperties list" where
  "get_most_recent_blobs lower_bound [] = []"
| "get_most_recent_blobs lower_bound (blob # listing) =
     (if last_modified blob > lower_bound
      then blob # get_most_recent_blobs lower_bound listing
      else get_most_recent_blobs lower_bound listing)"

text \<open>
  The container and the libraries around the connector: the listing, the download
  of a blob by name (a temporary file's path or the bytes in memory), the files on
  disk, the gzip test and decompression, and the UTF-8 decoder. Bytes are \<open>char\<close>s.
\<close>

record blob_storage =
  list_blobs :: "BlobProperties list"
  download_blob :: "string \<Rightarrow> string option \<times> string option"
  files :: "string \<rightharpoonup> string"
  is_gzip :: "string \<Rightarrow> bool"
  gunzip :: "string \<Rightarrow> string option"
  decode_utf8 :: "string \<Rightarrow> string option"

text \<open>Splitting a text at its line feeds; the text after the last line feed is a line too.\<close>

fun split_lines :: "string \<Rightarrow> string list" where
  "split_lines [] = [[]]"
| "split_lines (c # cs) =
     (if c = CHR 0x0A then [] # split_lines cs
      else (case split_lines cs of
              [] \<Rightarrow> [[c]]
            | l # ls \<Rightarrow> (c # l) # ls))"

text \<open>
  Modelled from the spec: the processing of one downloaded blob inside
  \<open>get_azure_blob_data\<close> (not among the sources): exactly one of the path and the
  bytes is given; gzip content is decompressed; the bytes are decoded as UTF-8,
  split into lines, and the non-empty lines are the records.
\<close>

definition blob_bytes :: "blob_storage \<Rightarrow> string option \<times> string option \<Rightarrow> exn + string" where
  "blob_bytes S d =
     (case d of
        (Some path, _) \<Rightarrow>
          (case files S path of
             None \<Rightarrow> Inl (Error ''FileNotFoundError'')
           | Some content \<Rightarrow> Inr content)
      | (None, Some content) \<Rightarrow> Inr content
      | (None, None) \<Rightarrow> Inl (Error ''ValueError''))"

definition blob_records :: "blob_storage \<Rightarrow> string option \<times> string option \<Rightarrow> exn + string list" where
  "blob_records S d =
     (case blob_bytes S d of
        Inl e \<Rightarrow> Inl e
      | Inr content \<Rightarrow>
          (case (if is_gzip S content then gunzip S content else Some content) of
             None \<Rightarrow> Inl (Error ''BadGzipFile'')
           | Some raw \<Rightarrow>
               (case decode_utf8 S raw of
                  None \<Rightarrow> Inl (Error ''UnicodeDecodeError'')
                | Some txt \<Rightarrow> Inr (filter (\<lambda>line. line \<noteq> []) (split_lines txt)))))"



section \<open>Test doubles\<close>

text \<open>
  The collaborators used in the examples: a source that holds a fixed list of events
  and answers with those at or after \<open>mintime\<close>; a callback that records its keyword
  arguments; an environment whose endpoints answer at once with nothing; a gzip
  framing that marks compressed content by the two magic bytes and stores it
  uncompressed; a decoder for ASCII text.
\<close>

definition ev :: "int \<Rightarrow> event" where
  "ev t = \<lparr>timestamp = t, eventtype = None, payload = []\<rparr>"

definition events_since :: "event list \<Rightarrow> pydict \<Rightarrow> 'w \<Rightarrow> (exn + event list) \<times> 'w" where
  "events_since evs kwargs w =
     (Inr (filter (\<lambda>e. case dict_get kwargs ''mintime'' of
                          PInt t \<Rightarrow> t \<le> timestamp e
                        | _ \<Rightarrow> True) evs), w)"

definition recorder :: "(pydict \<Rightarrow> pydict list \<Rightarrow> pydict list) option" where
  "recorder = Some (\<lambda>kwargs saved. saved @ [kwargs])"

definition page_of :: "event list \<Rightarrow> pyval \<Rightarrow> v2_response" where
  "page_of evs offset =
     \<lparr>resp_lists = [''authlogs'' \<mapsto> evs, ''items'' \<mapsto> evs],
      resp_metadata = Some [(''next_offset'', offset)]\<rparr>"

definition quiet_env :: env where
  "quiet_env =
     \<lparr>get_log_v1 = (\<lambda>lt n kwargs. (0, Inr [])),
      get_log_v2 = (\<lambda>lt n kwargs. (0, Inr (page_of [] PNone))),
      push_events_to_intakes = (\<lambda>n batch. (0, Inr ())),
      orjson_dumps = (\<lambda>e. str_int (timestamp e)),
      LogType_value = (\<lambda>lt. case lt of
                               ADMINISTRATION \<Rightarrow> ''administration''
                             | AUTHENTICATION \<Rightarrow> ''authentication''
                             | TELEPHONY \<Rightarrow> ''telephony''
                             | OFFLINE \<Rightarrow> ''offline'')\<rparr>"

definition world0 :: world where
  "world0 = \<lparr>clock = 1700000000, cache = Map.empty, stop_at = None, calls = 0, journal = []\<rparr>"

definition stored_gzip :: "string \<Rightarrow> string" where
  "stored_gzip raw = CHR 0x1F # CHR 0x8B # raw"

definition test_storage :: "(string \<rightharpoonup> string) \<Rightarrow> blob_storage" where
  "test_storage fs =
     \<lparr>list_blobs = [],
      download_blob = (\<lambda>n. (None, None)),
      files = fs,
      is_gzip = (\<lambda>bs. take 2 bs = [CHR 0x1F, CHR 0x8B]),
      gunzip = (\<lambda>bs. if take 2 bs = [CHR 0x1F, CHR 0x8B] then Some (drop 2 bs) else None),
      decode_utf8 = (\<lambda>bs. if \<forall>c \<in> set bs. of_char c < (128::nat) then Some bs else None)\<rparr>"

definition admin_consumer :: DuoLogsConsumer where
  "admin_consumer = \<lparr>log_type = ADMINISTRATION, frequency = 5, chunk_size = 2\<rparr>"

definition auth_consumer :: DuoLogsConsumer where
  "auth_consumer = \<lparr>log_type = AUTHENTICATION, frequency = 60, chunk_size = 1000\<rparr>"


text \<open>The durations of the \<open>time.sleep\<close> calls of a journal, in order.\<close>

fun sleeps :: "effect list \<Rightarrow> int list" where
  "sleeps [] = []"
| "sleeps (Sleep n # js) = n # sleeps js"
| "sleeps (x # js) = sleeps js"

text \<open>An environment whose endpoints take \<open>a\<close> seconds and whose forwarder takes \<open>b\<close>.\<close>

definition timed_env :: "rat \<Rightarrow> rat \<Rightarrow> env" where
  "timed_env a b =
     quiet_env\<lparr>get_log_v1 := (\<lambda>lt n kwargs. (a, Inr [ev 1])),
               push_events_to_intakes := (\<lambda>n batch. (b, Inr ()))\<rparr>"

text \<open>
  The iterators a consumer drives: their source call is an endpoint of the client and
  their callback is the consumer's \<open>save_checkpoint\<close>.
\<close>

definition consumer_iterator :: "env \<Rightarrow> DuoLogsConsumer \<Rightarrow> world iterator \<Rightarrow> bool" where
  "consumer_iterator E self it =
     (case it of
        V1 i \<Rightarrow> (\<exists>lt. func i = client_call_v1 E lt) \<and> callback i = Some (save_checkpoint E self)
      | V2 i \<Rightarrow> (\<exists>lt. func2 i = client_call_v2 E lt) \<and> callback2 i = Some (save_checkpoint E self))"

section \<open>Sequences of steps and what they save\<close>

text \<open>\<open>n\<close> calls of \<open>__next__\<close>, one after the other, whatever each returns or raises.\<close>

fun iterate :: "nat \<Rightarrow> 'w iterator \<Rightarrow> 'w \<Rightarrow> 'w iterator \<times> 'w" where
  "iterate 0 it w = (it, w)"
| "iterate (Suc n) it w = (case iterator_next it w of (r, it', w') \<Rightarrow> iterate n it' w')"

text \<open>The values handed to \<open>save_checkpoint\<close> for a key, in the order of the calls.\<close>

fun saved_values :: "string \<Rightarrow> effect list \<Rightarrow> pyval list" where
  "saved_values key [] = []"
| "saved_values key (Save k kwargs # js) =
     (if k = key then map snd kwargs @ saved_values key js else saved_values key js)"
| "saved_values key (x # js) = saved_values key js"

text \<open>
  The order of cursors: times by their value, offsets as Python orders strings
  (character by character, a proper prefix first).
\<close>

fun str_less :: "string \<Rightarrow> string \<Rightarrow> bool" where
  "str_less [] [] = False"
| "str_less [] (y # ys) = True"
| "str_less (x # xs) [] = False"
| "str_less (x # xs) (y # ys) =
     ((of_char x :: nat) < of_char y \<or> (x = y \<and> str_less xs ys))"

fun cursor_less :: "pyval \<Rightarrow> pyval \<Rightarrow> bool" where
  "cursor_less (PInt a) (PInt b) = (a < b)"
| "cursor_less (PStr a) (PStr b) = str_less a b"
| "cursor_less a b = False"

text \<open>
  The precondition on the source: asked with an integer \<open>mintime\<close>, a time-cursor
  endpoint returns no record older than it.
\<close>

definition honours_mintime :: "env \<Rightarrow> bool" where
  "honours_mintime E =
     (\<forall>lt n kwargs t d evs.
        get_log_v1 E lt n kwargs = (d, Inr evs) \<and> dict_get kwargs ''mintime'' = PInt t \<longrightarrow>
        (\<forall>e \<in> set evs. t \<le> timestamp e))"

text \<open>
  An environment whose authentication endpoint answers its first call with the
  offset \<open>o2\<close> and every later call with the offset \<open>o1\<close>; and one whose
  administration endpoint holds the events 100, 101, 105.
\<close>

definition receding_env :: env where
  "receding_env =
     quiet_env\<lparr>get_log_v2 :=
       (\<lambda>lt n kwargs. (0, Inr (page_of [ev 7] (if n = 0 then PStr ''o2'' else PStr ''o1''))))\<rparr>"

definition admin_env :: env where
  "admin_env =
     quiet_env\<lparr>get_log_v1 :=
       (\<lambda>lt n kwargs. (0, fst (events_since [ev 100, ev 101, ev 105] kwargs ())))\<rparr>"

section \<open>Pages and passes that went through\<close>

text \<open>
  The state of the \<open>for\<close> loop of \<open>fetch_batches\<close> after \<open>k\<close> pages were fetched and
  forwarded without an exception (the iterator, the count of events and the world),
  and the world after \<open>j\<close> passes of \<open>run\<close> that ended without an exception, each
  begun with the stop signal not set. There is none when a page or a pass ended
  otherwise.
\<close>

fun pages_done ::
  "env \<Rightarrow> DuoLogsConsumer \<Rightarrow> nat \<Rightarrow> world iterator \<Rightarrow> nat \<Rightarrow> world \<Rightarrow>
   (world iterator \<times> nat \<times> world) option" where
  "pages_done E self 0 it total_num_of_events w = Some (it, total_num_of_events, w)"
| "pages_done E self (Suc k) it total_num_of_events w =
     (case iterator_next it w of
        (Inl e, it', w1) \<Rightarrow> None
      | (Inr events, it', w1) \<Rightarrow>
          (case forward_page E self events w1 of
             (Inl e, w2) \<Rightarrow> None
           | (Inr _, w2) \<Rightarrow>
               pages_done E self k it' (total_num_of_events + length events) w2))"

fun passes_done :: "env \<Rightarrow> DuoLogsConsumer \<Rightarrow> nat \<Rightarrow> world \<Rightarrow> world option" where
  "passes_done E self 0 w = Some w"
| "passes_done E self (Suc j) w =
     (if running w then
        (case fetch_batches E self w of
           Some (Inr _, w1) \<Rightarrow> passes_done E self j w1
         | _ \<Rightarrow> None)
      else None)"

text \<open>
  An environment whose administration endpoint returns one event at its first call
  and fails at every later one; one whose forwarder takes the first page and fails
  at the second; one whose administration endpoint is empty at first and fails
  later.
\<close>

definition failing_later_env :: env where
  "failing_later_env =
     quiet_env\<lparr>get_log_v1 :=
       (\<lambda>lt n kwargs. if n = 0 then (1, Inr [ev 1]) else (1, Inl (Error ''RuntimeError'')))\<rparr>"

definition failing_second_push_env :: env where
  "failing_second_push_env =
     quiet_env\<lparr>get_log_v1 := (\<lambda>lt n kwargs. (1, Inr [ev (int n)])),
               push_events_to_intakes :=
                 (\<lambda>n batch. if n = 1 then (7, Inr ()) else (1, Inl (Error ''ConnectionError'')))\<rparr>"

definition failing_next_pass_env :: env where
  "failing_next_pass_env =
     quiet_env\<lparr>get_log_v1 :=
       (\<lambda>lt n kwargs. if n = 0 then (1, Inr []) else (1, Inl (Error ''RuntimeError'')))\<rparr>"

section \<open>Facts about the Python helpers\<close>

lemma dict_get_simps [simp]:
  "dict_get [] k = PNone"
  "dict_get ((k', v) # d) k = (if k = k' then v else dict_get d k)"
  by (simp_all add: dict_get_def)

lemma sorted_take_drop_le:
  assumes "sorted (map f xs)" and "a \<in> set (take n xs)" and "b \<in> set (drop n xs)"
  shows "f a \<le> f b"
proof -
  have "sorted (map f (take n xs) @ map f (drop n xs))"
    using assms(1) by (simp flip: map_append)
  then show ?thesis using assms(2,3) by (auto simp: sorted_append)
qed

lemmas fixture_defs = DuoV1LogsIterator_init_def DuoV2LogsIterator_init_def events_since_def
  ev_def recorder_def page_of_def

section \<open>The time-cursor iterator\<close>

text \<open>
  Claim C1. One step of \<open>DuoV1LogsIterator.__next__\<close>, for a limit that is not
  negative, when the source call with \<open>mintime\<close> = the cursor returns \<open>fetched\<close>: the
  page is the first \<open>limit\<close> records of \<open>fetched\<close> sorted by timestamp (a stable sort
  of the same records, so the page holds the oldest ones). A non-empty page is
  returned with the cursor set to its last timestamp + 1 and the callback already
  applied to that cursor; an empty fetch raises \<open>StopIteration\<close> and leaves the
  iterator and the world as the source call left them (no callback). For a positive
  limit the step raises \<open>StopIteration\<close> exactly when the fetch is empty.
\<close>

theorem time_cursor_step:
  assumes fetch: "func self [(''mintime'', min_time self)] w = (Inr fetched, w1)"
    and lim: "0 \<le> limit self"
  shows "let ordered = sort_key timestamp fetched;
             page = take (nat (limit self)) ordered;
             cursor = PInt (timestamp (last page) + 1)
         in mset ordered = mset fetched \<and> sorted (map timestamp ordered) \<and>
            (\<forall>k. filter (\<lambda>e. timestamp e = k) ordered = filter (\<lambda>e. timestamp e = k) fetched) \<and>
            (\<forall>a \<in> set page. \<forall>b \<in> set (drop (nat (limit self)) ordered).
               timestamp a \<le> timestamp b) \<and>
            (page \<noteq> [] \<longrightarrow>
               DuoV1LogsIterator_next self w =
                 (Inr page, self\<lparr>min_time := cursor\<rparr>,
                  case callback self of
                    Some cb \<Rightarrow> cb [(''min_time'', cursor)] w1
                  | None \<Rightarrow> w1)) \<and>
            (fetched = [] \<longrightarrow> DuoV1LogsIterator_next self w = (Inl StopIteration, self, w1)) \<and>
            (0 < limit self \<longrightarrow>
               (fst (DuoV1LogsIterator_next self w) = Inl StopIteration \<longleftrightarrow> fetched = []))"
proof -
  let ?ordered = "sort_key timestamp fetched"
  let ?page = "take (nat (limit self)) ?ordered"
  have slice: "slice_to ?ordered (limit self) = ?page"
    using lim by (simp add: slice_to_def)
  have perm: "mset ?ordered = mset fetched" by simp
  have srt: "sorted (map timestamp ?ordered)" by (rule sorted_sort_key)
  have stable: "\<forall>k. filter (\<lambda>e. timestamp e = k) ?ordered = filter (\<lambda>e. timestamp e = k) fetched"
    by (simp add: sort_key_stable)
  have oldest: "\<forall>a \<in> set ?page. \<forall>b \<in> set (drop (nat (limit self)) ?ordered).
      timestamp a \<le> timestamp b"
    using sorted_take_drop_le [OF srt] by blast
  have nonempty: "?page \<noteq> [] \<longrightarrow>
      DuoV1LogsIterator_next self w =
        (Inr ?page, self\<lparr>min_time := PInt (timestamp (last ?page) + 1)\<rparr>,
         case callback self of
           Some cb \<Rightarrow> cb [(''min_time'', PInt (timestamp (last ?page) + 1))] w1
         | None \<Rightarrow> w1)"
    using fetch slice by (simp add: DuoV1LogsIterator_next_def Let_def split: option.split)
  have empty: "fetched = [] \<longrightarrow> DuoV1LogsIterator_next self w = (Inl StopIteration, self, w1)"
    using fetch by (simp add: DuoV1LogsIterator_next_def Let_def slice_to_def)
  have iff: "0 < limit self \<longrightarrow>
      (fst (DuoV1LogsIterator_next self w) = Inl StopIteration \<longleftrightarrow> fetched = [])"
  proof
    assume pos: "0 < limit self"
    have "?page = [] \<longleftrightarrow> fetched = []"
      using pos by (cases fetched) (auto simp: take_eq_Nil)
    then show "fst (DuoV1LogsIterator_next self w) = Inl StopIteration \<longleftrightarrow> fetched = []"
      using fetch slice by (simp add: DuoV1LogsIterator_next_def Let_def)
  qed
  show ?thesis
    unfolding Let_def using perm srt stable oldest nonempty empty iff by blast
qed

text \<open>
  The step at the events 105, 100, 101 with limit 2 and no cursor yet: the source is
  asked from 0, the page is 100, 101, the cursor and the saved value are 102. Once
  the cursor is 106 the fetch is empty and the step raises \<open>StopIteration\<close>, saving
  nothing.
\<close>

theorem time_cursor_step_witness:
  "func (DuoV1LogsIterator_init (events_since [ev 105, ev 100, ev 101]) PNone 2 recorder)
        [(''mintime'', PInt 0)] [] = (Inr [ev 105, ev 100, ev 101], [])
   \<and> DuoV1LogsIterator_next
        (DuoV1LogsIterator_init (events_since [ev 105, ev 100, ev 101]) PNone 2 recorder) [] =
       (Inr [ev 100, ev 101],
        (DuoV1LogsIterator_init (events_since [ev 105, ev 100, ev 101]) PNone 2 recorder)
          \<lparr>min_time := PInt 102\<rparr>,
        [[(''min_time'', PInt 102)]])
   \<and> DuoV1LogsIterator_next
        (DuoV1LogsIterator_init (events_since [ev 105, ev 100, ev 101]) (PInt 106) 2 recorder)
        [[(''min_time'', PInt 102)], [(''min_time'', PInt 106)]] =
       (Inl StopIteration,
        DuoV1LogsIterator_init (events_since [ev 105, ev 100, ev 101]) (PInt 106) 2 recorder,
        [[(''min_time'', PInt 102)], [(''min_time'', PInt 106)]])"
  using time_cursor_step
          [of "DuoV1LogsIterator_init (events_since [ev 105, ev 100, ev 101]) PNone 2 recorder"
              "[]" "[ev 105, ev 100, ev 101]" "[]"]
        time_cursor_step
          [of "DuoV1LogsIterator_init (events_since [ev 105, ev 100, ev 101]) (PInt 106) 2 recorder"
              "[[(''min_time'', PInt 102)], [(''min_time'', PInt 106)]]" "[]"
              "[[(''min_time'', PInt 102)], [(''min_time'', PInt 106)]]"]
  by (simp add: fixture_defs Let_def)

text \<open>
  The three steps of the specification's example, one after the other: the events
  100, 101, 105 with limit 2 give the page 100, 101 and the cursor 102, then the page
  105 and the cursor 106, then \<open>StopIteration\<close>.
\<close>

lemma time_cursor_example:
  "DuoV1LogsIterator_next
     (DuoV1LogsIterator_init (events_since [ev 100, ev 101, ev 105]) PNone 2 recorder) [] =
     (Inr [ev 100, ev 101],
      DuoV1LogsIterator_init (events_since [ev 100, ev 101, ev 105]) (PInt 102) 2 recorder,
      [[(''min_time'', PInt 102)]])"
  "DuoV1LogsIterator_next
     (DuoV1LogsIterator_init (events_since [ev 100, ev 101, ev 105]) (PInt 102) 2 recorder)
     [[(''min_time'', PInt 102)]] =
     (Inr [ev 105],
      DuoV1LogsIterator_init (events_since [ev 100, ev 101, ev 105]) (PInt 106) 2 recorder,
      [[(''min_time'', PInt 102)], [(''min_time'', PInt 106)]])"
  "DuoV1LogsIterator_next
     (DuoV1LogsIterator_init (events_since [ev 100, ev 101, ev 105]) (PInt 106) 2 recorder)
     [[(''min_time'', PInt 102)], [(''min_time'', PInt 106)]] =
     (Inl StopIteration,
      DuoV1LogsIterator_init (events_since [ev 100, ev 101, ev 105]) (PInt 106) 2 recorder,
      [[(''min_time'', PInt 102)], [(''min_time'', PInt 106)]])"
  by (simp_all add: DuoV1LogsIterator_next_def slice_to_def fixture_defs Let_def)

section \<open>The offset-cursor iterator\<close>

text \<open>
  Claim C2. One step of \<open>DuoV2LogsIterator.__next__\<close>, when the source call returns
  a response: the request carries \<open>next_offset\<close> (and no \<open>mintime\<close>) when a
  \<open>next_offset\<close> is known (is true in Python's sense), and \<open>mintime\<close> = the cursor
  (and no \<open>next_offset\<close>) otherwise, always with \<open>api_version\<close> 2, the limit as a
  string and \<open>sort\<close> \<open>ts:asc\<close>. A \<open>next_offset\<close> in the response's metadata becomes
  the cursor and is handed to the callback; without one, nothing changes. The step
  raises \<open>StopIteration\<close> exactly when the page of the response is empty, whatever
  the offsets of this response and of the iterator are; a non-empty page is returned.
\<close>

theorem offset_cursor_step:
  assumes fetch: "func2 self (v2_request self) w = (Inr response, w1)"
  shows "let request = v2_request self;
             offset = dict_get (case resp_metadata response of None \<Rightarrow> [] | Some m \<Rightarrow> m)
                        ''next_offset'';
             result = DuoV2LogsIterator_next self w
         in (truthy (next_offset self) \<longrightarrow>
               map_of request ''next_offset'' = Some (next_offset self) \<and>
               map_of request ''mintime'' = None) \<and>
            (\<not> truthy (next_offset self) \<longrightarrow>
               map_of request ''mintime'' = Some (min_time2 self) \<and>
               map_of request ''next_offset'' = None) \<and>
            map_of request ''api_version'' = Some (PInt 2) \<and>
            map_of request ''limit'' = Some (PStr (str_int (limit2 self))) \<and>
            map_of request ''sort'' = Some (PStr ''ts:asc'') \<and>
            (truthy offset \<longrightarrow>
               fst (snd result) = self\<lparr>next_offset := offset\<rparr> \<and>
               snd (snd result) =
                 (case callback2 self of
                    Some cb \<Rightarrow> cb [(''next_offset'', offset)] w1
                  | None \<Rightarrow> w1)) \<and>
            (\<not> truthy offset \<longrightarrow> fst (snd result) = self \<and> snd (snd result) = w1) \<and>
            (fst result = Inl StopIteration \<longleftrightarrow>
               resp_lists response (ITEMS_FIELD self) = Some []) \<and>
            (\<forall>evs. resp_lists response (ITEMS_FIELD self) = Some evs \<and> evs \<noteq> [] \<longrightarrow>
               fst result = Inr evs)"
  using fetch
  by (simp add: DuoV2LogsIterator_next_def v2_request_def Let_def split: option.split)

theorem offset_cursor_step_witness:
  "func2 (DuoV2LogsIterator_init ''items'' (\<lambda>kwargs w. (Inr (page_of [] PNone), w)) recorder
            [(''min_time'', PInt 5), (''next_offset'', PStr ''o1'')] (Some 10))
     [(''next_offset'', PStr ''o1''), (''api_version'', PInt 2), (''limit'', PStr ''10''),
      (''sort'', PStr ''ts:asc'')] [] = (Inr (page_of [] PNone), [])
   \<and> DuoV2LogsIterator_next
       (DuoV2LogsIterator_init ''items'' (\<lambda>kwargs w. (Inr (page_of [] PNone), w)) recorder
          [(''min_time'', PInt 5), (''next_offset'', PStr ''o1'')] (Some 10)) [] =
     (Inl StopIteration,
      DuoV2LogsIterator_init ''items'' (\<lambda>kwargs w. (Inr (page_of [] PNone), w)) recorder
          [(''min_time'', PInt 5), (''next_offset'', PStr ''o1'')] (Some 10),
      [])
   \<and> DuoV2LogsIterator_next
       (DuoV2LogsIterator_init ''items'' (\<lambda>kwargs w. (Inr (page_of [] (PStr ''o2'')), w)) recorder
          [(''min_time'', PInt 5), (''next_offset'', PNone)] (Some 10)) [] =
     (Inl StopIteration,
      DuoV2LogsIterator_init ''items'' (\<lambda>kwargs w. (Inr (page_of [] (PStr ''o2'')), w)) recorder
          [(''min_time'', PInt 5), (''next_offset'', PStr ''o2'')] (Some 10),
      [[(''next_offset'', PStr ''o2'')]])"
  using offset_cursor_step
          [of "DuoV2LogsIterator_init ''items'' (\<lambda>kwargs w. (Inr (page_of [] PNone), w)) recorder
                 [(''min_time'', PInt 5), (''next_offset'', PStr ''o1'')] (Some 10)"
              "[]" "page_of [] PNone" "[]"]
        offset_cursor_step
          [of "DuoV2LogsIterator_init ''items'' (\<lambda>kwargs w. (Inr (page_of [] (PStr ''o2'')), w)) recorder
                 [(''min_time'', PInt 5), (''next_offset'', PNone)] (Some 10)"
              "[]" "page_of [] (PStr ''o2'')" "[]"]
  by (simp add: fixture_defs Let_def v2_request_def DuoV2LogsIterator_next_def str_int_def
        str_nat.simps)

section \<open>The checkpoint store\<close>

text \<open>
  Claim C10. \<open>save_checkpoint\<close> stores, under the key of the log type, exactly the
  keyword arguments it is given: a later \<open>load_checkpoint\<close> returns them, and the
  other keys keep their dicts. When a step of the offset-cursor iterator, with
  \<open>save_checkpoint\<close> as its callback, finds a \<open>next_offset\<close> in the response, the
  stored checkpoint is the dict with the single key \<open>next_offset\<close>: it has no
  \<open>min_time\<close> any more, whatever was stored before.
\<close>

theorem save_checkpoint_replaces:
  assumes cb: "callback2 it = Some (save_checkpoint E self)"
    and fetch: "func2 it (v2_request it) w = (Inr response, w1)"
    and offset: "truthy (dict_get (case resp_metadata response of None \<Rightarrow> [] | Some m \<Rightarrow> m)
                           ''next_offset'')"
  shows "let key = LogType_value E (log_type self);
             offset = dict_get (case resp_metadata response of None \<Rightarrow> [] | Some m \<Rightarrow> m)
                        ''next_offset'';
             w2 = snd (snd (DuoV2LogsIterator_next it w))
         in (\<forall>kwargs w0. cache (save_checkpoint E self kwargs w0) key = Some kwargs \<and>
               load_checkpoint E self (save_checkpoint E self kwargs w0) = kwargs \<and>
               (\<forall>k. k \<noteq> key \<longrightarrow> cache (save_checkpoint E self kwargs w0) k = cache w0 k)) \<and>
            cache w2 key = Some [(''next_offset'', offset)] \<and>
            map_of (load_checkpoint E self w2) ''min_time'' = None \<and>
            dict_get (load_checkpoint E self w2) ''min_time'' = PNone"
  using assms
  by (simp add: DuoV2LogsIterator_next_def Let_def save_checkpoint_def load_checkpoint_def emit_def
           split: option.split)

text \<open>
  A stored checkpoint with \<open>min_time\<close> 5, and a first page of the authentication log
  that comes with the offset \<open>o1\<close>: the stored dict is then \<open>{next_offset: o1}\<close>.
\<close>

theorem save_checkpoint_replaces_witness:
  "cache (snd (snd (DuoV2LogsIterator_next
       (AuthLogsIterator
          (quiet_env\<lparr>get_log_v2 := (\<lambda>lt n kwargs. (0, Inr (page_of [ev 7] (PStr ''o1''))))\<rparr>)
          (Some (save_checkpoint quiet_env auth_consumer))
          [(''min_time'', PInt 5), (''next_offset'', PNone)] (Some 1000))
       (world0\<lparr>cache := [''authentication'' \<mapsto> [(''min_time'', PInt 5)]]\<rparr>))))
     ''authentication'' = Some [(''next_offset'', PStr ''o1'')]"
  using save_checkpoint_replaces
     [of "AuthLogsIterator
            (quiet_env\<lparr>get_log_v2 := (\<lambda>lt n kwargs. (0, Inr (page_of [ev 7] (PStr ''o1''))))\<rparr>)
            (Some (save_checkpoint quiet_env auth_consumer))
            [(''min_time'', PInt 5), (''next_offset'', PNone)] (Some 1000)"
         quiet_env auth_consumer
         "world0\<lparr>cache := [''authentication'' \<mapsto> [(''min_time'', PInt 5)]]\<rparr>"
         "page_of [ev 7] (PStr ''o1'')"
         "emit (Call AUTHENTICATION
            (v2_request (AuthLogsIterator
               (quiet_env\<lparr>get_log_v2 := (\<lambda>lt n kwargs. (0, Inr (page_of [ev 7] (PStr ''o1''))))\<rparr>)
               (Some (save_checkpoint quiet_env auth_consumer))
               [(''min_time'', PInt 5), (''next_offset'', PNone)] (Some 1000))))
            (world0\<lparr>cache := [''authentication'' \<mapsto> [(''min_time'', PInt 5)]], calls := 1\<rparr>)"]
  by (simp add: AuthLogsIterator_def fixture_defs client_call_v2_def quiet_env_def
        auth_consumer_def world0_def Let_def)

section \<open>The first fetch of a connector without a checkpoint\<close>

text \<open>
  Claim C3, as it stands, asks that a Duo consumer without a checkpoint starts its
  first fetch at now - 1 hour. It does not: the administration log is asked from
  \<open>mintime\<close> 0 whatever the clock says.
\<close>

theorem first_fetch_counterexample:
  "cache world0 (LogType_value quiet_env (log_type admin_consumer)) = None \<and>
   journal (snd (snd (iterator_next (get_events_iterator quiet_env admin_consumer world0) world0)))
     = [Call ADMINISTRATION [(''mintime'', PInt 0)]] \<and>
   PInt 0 \<noteq> PInt (\<lfloor>clock world0\<rfloor> - 3600)"
  by (simp add: world0_def quiet_env_def admin_consumer_def get_events_iterator_def
        load_checkpoint_def AdminLogsIterator_def DuoV1LogsIterator_init_def
        DuoV1LogsIterator_next_def client_call_v1_def emit_def slice_to_def Let_def)

text \<open>
  Claim C3, amended. Without a checkpoint for its log type, the first call of a Duo
  consumer to its endpoint asks from \<open>mintime\<close> 0 for the time-cursor log types
  (administration, offline) and with \<open>mintime\<close> \<open>None\<close>, and no \<open>next_offset\<close>, for the
  offset-cursor log types (authentication, telephony); the blob scanner's effective
  lower bound without a checkpoint is now - 1 hour.
\<close>

theorem first_fetch_without_checkpoint:
  assumes "cache w (LogType_value E (log_type self)) = None"
  shows "take (Suc (length (journal w)))
           (journal (snd (snd (iterator_next (get_events_iterator E self w) w)))) =
         journal w @
           [Call (log_type self)
              (if log_type self = ADMINISTRATION \<or> log_type self = OFFLINE
               then [(''mintime'', PInt 0)]
               else [(''mintime'', PNone), (''api_version'', PInt 2),
                     (''limit'', PStr (str_int (chunk_size self))), (''sort'', PStr ''ts:asc'')])]
         \<and> last_event_date now None = now - 3600"
  using assms
  by (cases "log_type self")
     (auto simp add: get_events_iterator_def load_checkpoint_def AdminLogsIterator_def
        OfflineLogsIterator_def AuthLogsIterator_def TelephonyLogsIterator_def
        DuoV1LogsIterator_init_def DuoV2LogsIterator_init_def v2_request_def
        DuoV1LogsIterator_next_def DuoV2LogsIterator_next_def client_call_v1_def
        client_call_v2_def emit_def save_checkpoint_def slice_to_def Let_def
        last_event_date_def
        split: prod.split sum.split option.split)

theorem first_fetch_without_checkpoint_witness:
  "take 1 (journal (snd (snd (iterator_next
       (get_events_iterator quiet_env auth_consumer world0) world0)))) =
     [Call AUTHENTICATION [(''mintime'', PNone), (''api_version'', PInt 2),
                           (''limit'', PStr ''1000''), (''sort'', PStr ''ts:asc'')]]
   \<and> last_event_date 1700000000 None = 1699996400"
  using first_fetch_without_checkpoint [of world0 quiet_env auth_consumer 1700000000]
  by (simp add: world0_def quiet_env_def auth_consumer_def str_int_def str_nat.simps)

section \<open>The blob scanner\<close>

text \<open>
  The first two cases of \<open>test_azure_blob_connector_last_event_date\<close>, on the model:
  no checkpoint gives one hour ago, a checkpoint of now gives now. (Its third case
  reads a checkpoint of one hour and twenty minutes ago back as one hour ago; the
  specification gives the checkpoint value, and the model follows the
  specification.)
\<close>

lemma test_azure_blob_connector_last_event_date:
  "last_event_date now None = now - 3600"
  "last_event_date now (Some now) = now"
  by (simp_all add: last_event_date_def)

lemma get_most_recent_blobs_filter:
  "get_most_recent_blobs T listing = filter (\<lambda>b. T < last_modified b) listing"
  by (induction listing) simp_all



text \<open>
  Claim C7. \<open>get_most_recent_blobs\<close> with lower bound \<open>T\<close> yields exactly the blobs of
  the listing with \<open>last_modified > T\<close>, in the listing's order: a blob modified at
  \<open>T\<close> is left out, one modified a second later is kept, and each blob of the listing
  stands in the result between the results of what precedes and what follows it.
\<close>

theorem most_recent_blobs_exclusive:
  "get_most_recent_blobs T listing = filter (\<lambda>b. T < last_modified b) listing \<and>
   (\<forall>b. b \<in> set (get_most_recent_blobs T listing) \<longleftrightarrow> b \<in> set listing \<and> T < last_modified b) \<and>
   (\<forall>b \<in> set listing. last_modified b = T \<longrightarrow> b \<notin> set (get_most_recent_blobs T listing)) \<and>
   (\<forall>b \<in> set listing. last_modified b = T + 1 \<longrightarrow> b \<in> set (get_most_recent_blobs T listing)) \<and>
   (\<forall>pre b post. get_most_recent_blobs T (pre @ b # post) =
      get_most_recent_blobs T pre
      @ (if T < last_modified b then [b] else [])
      @ get_most_recent_blobs T post)"
  by (auto simp: get_most_recent_blobs_filter)

theorem most_recent_blobs_exclusive_witness:
  "get_most_recent_blobs 1120
     [\<lparr>name = ''a'', last_modified = 1000\<rparr>, \<lparr>name = ''b'', last_modified = 1120\<rparr>,
      \<lparr>name = ''c'', last_modified = 1121\<rparr>, \<lparr>name = ''d'', last_modified = 1300\<rparr>,
      \<lparr>name = ''e'', last_modified = 1121\<rparr>] =
     [\<lparr>name = ''c'', last_modified = 1121\<rparr>, \<lparr>name = ''d'', last_modified = 1300\<rparr>,
      \<lparr>name = ''e'', last_modified = 1121\<rparr>]"
  using most_recent_blobs_exclusive
    [of 1120 "[\<lparr>name = ''a'', last_modified = 1000\<rparr>, \<lparr>name = ''b'', last_modified = 1120\<rparr>,
      \<lparr>name = ''c'', last_modified = 1121\<rparr>, \<lparr>name = ''d'', last_modified = 1300\<rparr>,
      \<lparr>name = ''e'', last_modified = 1121\<rparr>]"]
  by simp

text \<open>
  \<open>test_azure_blob_get_most_recent_blob\<close> on the model: blobs modified at the current
  date, five and seven minutes later, and a lower bound two minutes after the
  current date.
\<close>

lemma test_azure_blob_get_most_recent_blob:
  "get_most_recent_blobs (now + 120)
     [\<lparr>name = n1, last_modified = now\<rparr>, \<lparr>name = n2, last_modified = now + 300\<rparr>,
      \<lparr>name = n3, last_modified = now + 420\<rparr>] =
     [\<lparr>name = n2, last_modified = now + 300\<rparr>, \<lparr>name = n3, last_modified = now + 420\<rparr>]"
  by simp






text \<open>
  \<open>test_azure_blob_get_azure_blob_data_4\<close> on the model: a gzip file with the content,
  five line feeds, the content, a line feed, the content, a line feed.
\<close>

lemma test_azure_blob_get_azure_blob_data_4:
  "blob_records
     (test_storage [''/tmp/gz'' \<mapsto> stored_gzip (''{r}'' @ replicate 5 (CHR 0x0A) @ ''{r}''
                                          @ [CHR 0x0A] @ ''{r}'' @ [CHR 0x0A])])
     (Some ''/tmp/gz'', None) = Inr [''{r}'', ''{r}'', ''{r}'']"
  by (simp add: blob_records_def blob_bytes_def test_storage_def stored_gzip_def numeral_eq_Suc)

section \<open>Pacing\<close>

lemma sleeps_append [simp]: "sleeps (xs @ ys) = sleeps xs @ sleeps ys"
  by (induction xs rule: sleeps.induct) simp_all

lemma floor_divide_numeral_rat [simp]:
  "\<lfloor>numeral a / numeral b :: rat\<rfloor> = numeral a div numeral b"
  using floor_divide_of_int_eq [of "numeral a" "numeral b", where ?'a = rat] by simp

text \<open>
  The loop body for a page that is not empty, when the forwarder returns after \<open>d\<close>
  seconds: \<open>batch_duration\<close> is \<open>d\<close> cut to whole seconds, and the body sleeps the
  frequency minus \<open>batch_duration\<close> when that is positive and does not sleep
  otherwise.
\<close>

lemma forward_page_sleep:
  assumes page: "fetched \<noteq> []"
    and push: "push_events_to_intakes E (calls w)
                 (map (orjson_dumps E) (map (\<lambda>e. e\<lparr>eventtype := Some (log_type self)\<rparr>) fetched))
               = (d, Inr u)"
  shows "let batch_duration = py_int d;
             remaining = frequency self - batch_duration;
             w' = snd (forward_page E self fetched w)
         in fst (forward_page E self fetched w) = Inr () \<and>
            sleeps (journal w') =
              sleeps (journal w) @ (if 0 < remaining then [remaining] else []) \<and>
            clock w' = clock w + d + (if 0 < remaining then of_int remaining else 0)"
  using assms
  by (simp add: forward_page_def forward_def sleep_def emit_def Let_def)

text \<open>
  With frequency 5 and a page that is fetched at once: forwarding it in 2 seconds is
  followed by a sleep of 3 seconds, forwarding it in 6 seconds by none.
\<close>

lemma forward_page_sleep_examples:
  "sleeps (journal (snd (forward_page (timed_env 0 2) admin_consumer [ev 1] world0))) = [3]"
  "sleeps (journal (snd (forward_page (timed_env 0 6) admin_consumer [ev 1] world0))) = []"
  using forward_page_sleep [of "[ev 1]" "timed_env 0 2" world0 admin_consumer 2 "()"]
        forward_page_sleep [of "[ev 1]" "timed_env 0 6" world0 admin_consumer 6 "()"]
  by (simp_all add: timed_env_def quiet_env_def admin_consumer_def world0_def py_int_def Let_def)

text \<open>
  Claim C8 fails on the code where the fetch takes time. With frequency 5, take a
  page whose fetch takes 6 seconds and whose forwarding takes none: the cycle of
  fetching and forwarding took 6 seconds, so the claim has no sleep. The loop reads
  \<open>batch_start_time\<close> in its body, when \<open>__next__\<close> has already fetched the page:
  it measures 0 seconds, logs that the events were fetched and forwarded in 0
  seconds, and sleeps 5 seconds, so that the next fetch starts 11 seconds after
  this one.
\<close>

theorem pacing_omits_fetch:
  "pages_done (timed_env 6 0) admin_consumer (Suc 0)
     (get_events_iterator (timed_env 6 0) admin_consumer world0) 0 world0 =
   Some (V1 (AdminLogsIterator (timed_env 6 0) (PInt 2) 2
               (Some (save_checkpoint (timed_env 6 0) admin_consumer))),
         1,
         world0\<lparr>clock := 1700000011, calls := 2,
                cache := [''administration'' \<mapsto> [(''min_time'', PInt 2)]],
                journal :=
                  [Call ADMINISTRATION [(''mintime'', PInt 0)],
                   Save ''administration'' [(''min_time'', PInt 2)],
                   Incoming 1,
                   Push [''1''],
                   Log ''Fetched and forwarded 1 ADMINISTRATION events in 0 seconds'' ''info'',
                   Outcoming 1,
                   Observe 0,
                   Log ''Next batch of ADMINISTRATION events in the future. Waiting 5 seconds''
                     ''info'',
                   Sleep 5]\<rparr>) \<and>
   clock (snd (snd (iterator_next (get_events_iterator (timed_env 6 0) admin_consumer world0)
                      world0))) - clock world0 = 6"
proof -
  have env: "get_log_v1 (timed_env 6 0) lt n kwargs = (6, Inr [ev 1])"
    "push_events_to_intakes (timed_env 6 0) n batch = (0, Inr ())"
    "orjson_dumps (timed_env 6 0) e = str_int (timestamp e)"
    "LogType_value (timed_env 6 0) ADMINISTRATION = ''administration''"
    for lt n kwargs batch e
    by (simp_all add: timed_env_def quiet_env_def)
  show ?thesis
    by (simp add: env admin_consumer_def world0_def get_events_iterator_def load_checkpoint_def
          AdminLogsIterator_def DuoV1LogsIterator_init_def DuoV1LogsIterator_next_def
          client_call_v1_def save_checkpoint_def emit_def sleep_def slice_to_def ev_def
          forward_page_def forward_def log_label_def py_int_def str_int_def str_nat.simps
          Let_def)
qed

section \<open>The worker loop\<close>

lemma get_events_iterator_consumer: "consumer_iterator E self (get_events_iterator E self w)"
  by (cases "log_type self")
     (auto simp: consumer_iterator_def get_events_iterator_def AdminLogsIterator_def
        OfflineLogsIterator_def AuthLogsIterator_def TelephonyLogsIterator_def
        DuoV1LogsIterator_init_def DuoV2LogsIterator_init_def Let_def)

lemma get_events_iterator_stop:
  "get_events_iterator E self (w\<lparr>stop_at := s\<rparr>) = get_events_iterator E self w"
  by (simp add: get_events_iterator_def load_checkpoint_def)

lemma client_call_v1_stop:
  "client_call_v1 E lt kwargs (w\<lparr>stop_at := s\<rparr>) =
   (case client_call_v1 E lt kwargs w of (r, w') \<Rightarrow> (r, w'\<lparr>stop_at := s\<rparr>))"
  by (cases "get_log_v1 E lt (calls w) kwargs") (simp add: client_call_v1_def emit_def)

lemma client_call_v2_stop:
  "client_call_v2 E lt kwargs (w\<lparr>stop_at := s\<rparr>) =
   (case client_call_v2 E lt kwargs w of (r, w') \<Rightarrow> (r, w'\<lparr>stop_at := s\<rparr>))"
  by (cases "get_log_v2 E lt (calls w) kwargs") (simp add: client_call_v2_def emit_def)

lemma save_checkpoint_stop:
  "save_checkpoint E self kwargs (w\<lparr>stop_at := s\<rparr>) =
   (save_checkpoint E self kwargs w)\<lparr>stop_at := s\<rparr>"
  by (simp add: save_checkpoint_def emit_def Let_def)

lemma iterator_next_stop:
  assumes "consumer_iterator E self it"
  shows "iterator_next it (w\<lparr>stop_at := s\<rparr>) =
         (case iterator_next it w of (r, it', w') \<Rightarrow> (r, it', w'\<lparr>stop_at := s\<rparr>))"
proof (cases it)
  case (V1 i)
  with assms obtain lt where f: "func i = client_call_v1 E lt"
    and cb: "callback i = Some (save_checkpoint E self)"
    by (auto simp: consumer_iterator_def)
  obtain r w1 where c: "client_call_v1 E lt [(''mintime'', min_time i)] w = (r, w1)"
    by (cases "client_call_v1 E lt [(''mintime'', min_time i)] w")
  show ?thesis
    using V1 f cb c
    by (cases r)
       (simp_all add: DuoV1LogsIterator_next_def client_call_v1_stop save_checkpoint_stop Let_def)
next
  case (V2 i)
  with assms obtain lt where f: "func2 i = client_call_v2 E lt"
    and cb: "callback2 i = Some (save_checkpoint E self)"
    by (auto simp: consumer_iterator_def)
  obtain r w1 where c: "client_call_v2 E lt (v2_request i) w = (r, w1)"
    by (cases "client_call_v2 E lt (v2_request i) w")
  show ?thesis
    using V2 f cb c
    by (cases r)
       (simp_all add: DuoV2LogsIterator_next_def client_call_v2_stop save_checkpoint_stop Let_def
          split: option.split)
qed

lemma iterator_next_consumer:
  assumes "consumer_iterator E self it" and "iterator_next it w = (r, it', w')"
  shows "consumer_iterator E self it'"
proof (cases it)
  case (V1 i)
  then show ?thesis using assms
    by (auto simp: consumer_iterator_def DuoV1LogsIterator_next_def Let_def
          split: prod.splits sum.splits if_splits)
next
  case (V2 i)
  then show ?thesis using assms
    by (auto simp: consumer_iterator_def DuoV2LogsIterator_next_def Let_def
          split: prod.splits sum.splits option.splits if_splits)
qed

lemma forward_stop:
  "forward E batch (w\<lparr>stop_at := s\<rparr>) =
   (case forward E batch w of (r, w') \<Rightarrow> (r, w'\<lparr>stop_at := s\<rparr>))"
  by (cases "push_events_to_intakes E (calls w) batch") (simp add: forward_def emit_def)

lemma emit_stop: "emit x (w\<lparr>stop_at := s\<rparr>) = (emit x w)\<lparr>stop_at := s\<rparr>"
  by (simp add: emit_def)

lemma sleep_stop: "sleep n (w\<lparr>stop_at := s\<rparr>) = (sleep n w)\<lparr>stop_at := s\<rparr>"
  by (simp add: sleep_def emit_def)

lemma emit_clock [simp]: "clock (emit x w) = clock w"
  by (simp add: emit_def)

lemma forward_page_stop:
  "forward_page E self events (w\<lparr>stop_at := s\<rparr>) =
   (case forward_page E self events w of (r, w') \<Rightarrow> (r, w'\<lparr>stop_at := s\<rparr>))"
proof (cases "events = []")
  case True
  then show ?thesis
    by (simp add: forward_page_def sleep_stop emit_stop Let_def)
next
  case False
  obtain r w1 where c: "forward E (map (orjson_dumps E)
        (map (\<lambda>e. e\<lparr>eventtype := Some (log_type self)\<rparr>) events))
        (emit (Incoming (length events)) w) = (r, w1)"
    by (cases "forward E (map (orjson_dumps E)
        (map (\<lambda>e. e\<lparr>eventtype := Some (log_type self)\<rparr>) events))
        (emit (Incoming (length events)) w)")
  show ?thesis
    using False c
    by (cases r) (simp_all add: forward_page_def forward_stop sleep_stop emit_stop Let_def)
qed

lemma for_events_stop_some:
  assumes run: "for_events E self it n w = Some y"
    and ci: "consumer_iterator E self it"
  shows "for_events E self it n (w\<lparr>stop_at := s\<rparr>) = Some (fst y, (snd y)\<lparr>stop_at := s\<rparr>)"
proof -
  have "consumer_iterator E self it \<longrightarrow>
        for_events E self it n (w\<lparr>stop_at := s\<rparr>) = Some (fst y, (snd y)\<lparr>stop_at := s\<rparr>)"
  proof (rule for_events.raw_induct
           [where P = "\<lambda>E self it n w y. consumer_iterator E self it \<longrightarrow>
                         for_events E self it n (w\<lparr>stop_at := s\<rparr>) =
                         Some (fst y, (snd y)\<lparr>stop_at := s\<rparr>)",
            OF _ run], goal_cases)
    case (1 loop E self it n w y)
    show ?case
    proof
      assume ci: "consumer_iterator E self it"
      obtain r it' w1 where nx: "iterator_next it w = (r, it', w1)"
        by (cases "iterator_next it w")
      have nx': "iterator_next it (w\<lparr>stop_at := s\<rparr>) = (r, it', w1\<lparr>stop_at := s\<rparr>)"
        using iterator_next_stop [OF ci, where w = w and s = s] nx by simp
      have it': "consumer_iterator E self it'"
        using iterator_next_consumer [OF ci nx] .
      show "for_events E self it n (w\<lparr>stop_at := s\<rparr>) = Some (fst y, (snd y)\<lparr>stop_at := s\<rparr>)"
      proof (cases r)
        case (Inl e)
        then show ?thesis
          using "1"(2) nx nx'
          by (cases e) (auto simp: for_events.simps [of E self it n "w\<lparr>stop_at := s\<rparr>"])
      next
        case (Inr events)
        obtain r2 w2 where fp: "forward_page E self events w1 = (r2, w2)"
          by (cases "forward_page E self events w1")
        have fp': "forward_page E self events (w1\<lparr>stop_at := s\<rparr>) = (r2, w2\<lparr>stop_at := s\<rparr>)"
          using forward_page_stop [where E = E and self = self and events = events
                                     and w = w1 and s = s] fp by simp
        show ?thesis
        proof (cases r2)
          case (Inl e)
          then show ?thesis
            using "1"(2) nx nx' Inr fp fp'
            by (auto simp: for_events.simps [of E self it n "w\<lparr>stop_at := s\<rparr>"])
        next
          case (Inr u)
          with "1"(2) nx \<open>r = Inr events\<close> fp
          have "loop E self it' (n + length events) w2 = Some y" by simp
          from "1"(1) [OF this] it'
          show ?thesis
            using nx' \<open>r = Inr events\<close> fp' Inr
            by (simp add: for_events.simps [of E self it n "w\<lparr>stop_at := s\<rparr>"])
        qed
      qed
    qed
  qed
  with ci show ?thesis by simp
qed

lemma for_events_stop:
  assumes ci: "consumer_iterator E self it"
  shows "for_events E self it n (w\<lparr>stop_at := s\<rparr>) =
         map_option (\<lambda>(r, w'). (r, w'\<lparr>stop_at := s\<rparr>)) (for_events E self it n w)"
proof (cases "for_events E self it n w")
  case None
  show ?thesis
  proof (cases "for_events E self it n (w\<lparr>stop_at := s\<rparr>)")
    case None
    with \<open>for_events E self it n w = None\<close> show ?thesis by simp
  next
    case (Some y)
    have "for_events E self it n (w\<lparr>stop_at := s\<rparr>\<lparr>stop_at := stop_at w\<rparr>) =
          Some (fst y, (snd y)\<lparr>stop_at := stop_at w\<rparr>)"
      by (rule for_events_stop_some [OF Some ci])
    then show ?thesis using \<open>for_events E self it n w = None\<close> by simp
  qed
next
  case (Some y)
  have "for_events E self it n (w\<lparr>stop_at := s\<rparr>) = Some (fst y, (snd y)\<lparr>stop_at := s\<rparr>)"
    by (rule for_events_stop_some [OF Some ci])
  then show ?thesis using Some by (simp add: case_prod_beta)
qed

lemma fetch_batches_stop:
  "fetch_batches E self (w\<lparr>stop_at := s\<rparr>) =
   map_option (\<lambda>(r, w'). (r, w'\<lparr>stop_at := s\<rparr>)) (fetch_batches E self w)"
  by (simp add: fetch_batches_def get_events_iterator_stop
        for_events_stop [OF get_events_iterator_consumer] sleep_stop emit_stop
        split: option.split sum.split prod.split)


lemma forward_page_raises:
  assumes "events \<noteq> []"
    and "push_events_to_intakes E (calls w)
           (map (orjson_dumps E) (map (\<lambda>e. e\<lparr>eventtype := Some (log_type self)\<rparr>) events))
         = (d, Inl e)"
  shows "fst (forward_page E self events w) = Inl e"
  using assms by (simp add: forward_page_def forward_def emit_def Let_def)

lemma for_events_pages_done:
  "pages_done E self k it n w = Some (it', n', w') \<Longrightarrow>
   for_events E self it n w = for_events E self it' n' w'"
proof (induction k arbitrary: it n w)
  case 0
  then show ?case by simp
next
  case (Suc k)
  obtain r it1 w1 where nx: "iterator_next it w = (r, it1, w1)"
    by (cases "iterator_next it w")
  show ?case
  proof (cases r)
    case (Inl e)
    with Suc.prems nx show ?thesis by simp
  next
    case (Inr events)
    obtain r2 w2 where fp: "forward_page E self events w1 = (r2, w2)"
      by (cases "forward_page E self events w1")
    show ?thesis
    proof (cases r2)
      case (Inl e)
      with Suc.prems nx Inr fp show ?thesis by simp
    next
      case (Inr u)
      with Suc.prems nx \<open>r = Inr events\<close> fp
      have rest: "pages_done E self k it1 (n + length events) w2 = Some (it', n', w')"
        by simp
      have "for_events E self it n w = for_events E self it1 (n + length events) w2"
        using nx \<open>r = Inr events\<close> fp Inr by (simp add: for_events.simps [of E self it n w])
      also have "\<dots> = for_events E self it' n' w'"
        by (rule Suc.IH [OF rest])
      finally show ?thesis .
    qed
  qed
qed

lemma run_passes_done:
  "passes_done E self j w = Some w' \<Longrightarrow> run E self w = run E self w'"
proof (induction j arbitrary: w)
  case 0
  then show ?case by simp
next
  case (Suc j)
  from Suc.prems have up: "running w"
    by (simp split: if_splits)
  from Suc.prems up obtain u w1 where pass: "fetch_batches E self w = Some (Inr u, w1)"
    and rest: "passes_done E self j w1 = Some w'"
    by (auto split: option.splits sum.splits prod.splits)
  have "run E self w = run E self w1"
    using up pass by (simp add: run.simps [of E self w])
  also have "\<dots> = run E self w'"
    by (rule Suc.IH [OF rest])
  finally show ?case .
qed

lemma for_events_fetch_raises:
  assumes "pages_done E self k it n w = Some (itk, nk, wk)"
    and "iterator_next itk wk = (Inl (Error x), it', w1)"
  shows "for_events E self it n w = Some (Inl (Error x), w1)"
  using for_events_pages_done [OF assms(1)] assms(2)
  by (simp add: for_events.simps [of E self itk nk wk])

lemma for_events_forward_raises:
  assumes "pages_done E self k it n w = Some (itk, nk, wk)"
    and "iterator_next itk wk = (Inr events, it', w1)"
    and "forward_page E self events w1 = (Inl e, w2)"
  shows "for_events E self it n w = Some (Inl e, w2)"
  using for_events_pages_done [OF assms(1)] assms(2,3)
  by (simp add: for_events.simps [of E self itk nk wk])

lemma run_pass_raises:
  assumes "passes_done E self j w = Some wj" and "running wj"
    and "for_events E self (get_events_iterator E self wj) 0 wj = Some (Inl e, w1)"
  shows "run E self w =
         Some (emit (LogException e (''Failed to forward '' @ log_label self @ '' events'')) w1)"
proof -
  have "fetch_batches E self wj = Some (Inl e, w1)"
    using assms(3) by (simp add: fetch_batches_def)
  then have "run E self wj =
      Some (emit (LogException e (''Failed to forward '' @ log_label self @ '' events'')) w1)"
    using assms(2) by (simp add: run.simps [of E self wj])
  then show ?thesis
    using run_passes_done [OF assms(1)] by simp
qed

lemma iterator_next_v1_raises:
  assumes "func i = client_call_v1 E lt"
    and "get_log_v1 E lt (calls w) [(''mintime'', min_time i)] = (d, Inl e)"
  shows "fst (iterator_next (V1 i) w) = Inl e"
  using assms by (simp add: DuoV1LogsIterator_next_def client_call_v1_def)

lemma iterator_next_v2_raises:
  assumes "func2 i = client_call_v2 E lt"
    and "get_log_v2 E lt (calls w) (v2_request i) = (d, Inl e)"
  shows "fst (iterator_next (V2 i) w) = Inl e"
  using assms by (simp add: DuoV2LogsIterator_next_def client_call_v2_def)

text \<open>
  Claim C9. Let \<open>j\<close> passes of \<open>run\<close> have gone through, the stop signal be unset at
  the top of the next pass, and \<open>k\<close> pages of that pass have been fetched and
  forwarded. If the next call of \<open>__next__\<close> raises an error (any exception but
  \<open>StopIteration\<close>), or if it returns a page whose forwarding raises, then the loop
  over the pages ends with that error, the pass ends with it without the idle
  sleep, and \<open>run\<close> returns: its world is the world at the failure plus one
  \<open>log_exception\<close> whose message names the log type, so nothing is fetched or
  forwarded again. An exception of the client's endpoint is an exception of
  \<open>__next__\<close>, and an exception of the forwarder is one of the page's forwarding.
  The stop signal is read at the top of the loop only: a pass does the same whenever
  \<open>stop()\<close> is called, \<open>run\<close> returns at once when the signal is set at the top, and
  after a pass without error it is back at the top.
\<close>

theorem worker_failure_is_fatal:
  "(\<forall>k it n w itk nk wk x it' w1.
      pages_done E self k it n w = Some (itk, nk, wk) \<and>
      iterator_next itk wk = (Inl (Error x), it', w1) \<longrightarrow>
      for_events E self it n w = Some (Inl (Error x), w1)) \<and>
   (\<forall>k it n w itk nk wk events it' w1 e w2.
      pages_done E self k it n w = Some (itk, nk, wk) \<and>
      iterator_next itk wk = (Inr events, it', w1) \<and>
      forward_page E self events w1 = (Inl e, w2) \<longrightarrow>
      for_events E self it n w = Some (Inl e, w2)) \<and>
   (\<forall>j k w wj itk nk wk x it' w1.
      passes_done E self j w = Some wj \<and> running wj \<and>
      pages_done E self k (get_events_iterator E self wj) 0 wj = Some (itk, nk, wk) \<and>
      iterator_next itk wk = (Inl (Error x), it', w1) \<longrightarrow>
      fetch_batches E self wj = Some (Inl (Error x), w1) \<and>
      run E self w =
        Some (emit (LogException (Error x)
                      (''Failed to forward '' @ log_label self @ '' events'')) w1)) \<and>
   (\<forall>j k w wj itk nk wk events it' w1 e w2.
      passes_done E self j w = Some wj \<and> running wj \<and>
      pages_done E self k (get_events_iterator E self wj) 0 wj = Some (itk, nk, wk) \<and>
      iterator_next itk wk = (Inr events, it', w1) \<and>
      forward_page E self events w1 = (Inl e, w2) \<longrightarrow>
      fetch_batches E self wj = Some (Inl e, w2) \<and>
      run E self w =
        Some (emit (LogException e (''Failed to forward '' @ log_label self @ '' events'')) w2)) \<and>
   (\<forall>i lt w d e.
      func i = client_call_v1 E lt \<and>
      get_log_v1 E lt (calls w) [(''mintime'', min_time i)] = (d, Inl e) \<longrightarrow>
      fst (iterator_next (V1 i) w) = Inl e) \<and>
   (\<forall>i lt w d e.
      func2 i = client_call_v2 E lt \<and>
      get_log_v2 E lt (calls w) (v2_request i) = (d, Inl e) \<longrightarrow>
      fst (iterator_next (V2 i) w) = Inl e) \<and>
   (\<forall>events w d e.
      events \<noteq> [] \<and>
      push_events_to_intakes E (calls w)
        (map (orjson_dumps E) (map (\<lambda>e. e\<lparr>eventtype := Some (log_type self)\<rparr>) events))
      = (d, Inl e) \<longrightarrow>
      fst (forward_page E self events w) = Inl e) \<and>
   (\<forall>w s.
      fetch_batches E self (w\<lparr>stop_at := s\<rparr>) =
      map_option (\<lambda>(r, w'). (r, w'\<lparr>stop_at := s\<rparr>)) (fetch_batches E self w)) \<and>
   (\<forall>w. \<not> running w \<longrightarrow> run E self w = Some w) \<and>
   (\<forall>w u w1.
      running w \<and> fetch_batches E self w = Some (Inr u, w1) \<longrightarrow>
      run E self w = run E self w1)"
proof (intro conjI allI impI)
  fix k n w itk nk wk x w1 and it it' :: "world iterator"
  assume "pages_done E self k it n w = Some (itk, nk, wk) \<and>
          iterator_next itk wk = (Inl (Error x), it', w1)"
  then show "for_events E self it n w = Some (Inl (Error x), w1)"
    using for_events_fetch_raises by blast
next
  fix k n w itk nk wk events w1 e w2 and it it' :: "world iterator"
  assume "pages_done E self k it n w = Some (itk, nk, wk) \<and>
          iterator_next itk wk = (Inr events, it', w1) \<and>
          forward_page E self events w1 = (Inl e, w2)"
  then show "for_events E self it n w = Some (Inl e, w2)"
    using for_events_forward_raises by blast
next
  fix j k w wj itk nk wk x w1 and it' :: "world iterator"
  assume a: "passes_done E self j w = Some wj \<and> running wj \<and>
      pages_done E self k (get_events_iterator E self wj) 0 wj = Some (itk, nk, wk) \<and>
      iterator_next itk wk = (Inl (Error x), it', w1)"
  then have fe: "for_events E self (get_events_iterator E self wj) 0 wj = Some (Inl (Error x), w1)"
    using for_events_fetch_raises by blast
  then show "fetch_batches E self wj = Some (Inl (Error x), w1)"
    by (simp add: fetch_batches_def)
  show "run E self w =
        Some (emit (LogException (Error x)
                      (''Failed to forward '' @ log_label self @ '' events'')) w1)"
    using a fe run_pass_raises by blast
next
  fix j k w wj itk nk wk events w1 e w2 and it' :: "world iterator"
  assume a: "passes_done E self j w = Some wj \<and> running wj \<and>
      pages_done E self k (get_events_iterator E self wj) 0 wj = Some (itk, nk, wk) \<and>
      iterator_next itk wk = (Inr events, it', w1) \<and>
      forward_page E self events w1 = (Inl e, w2)"
  then have fe: "for_events E self (get_events_iterator E self wj) 0 wj = Some (Inl e, w2)"
    using for_events_forward_raises by blast
  then show "fetch_batches E self wj = Some (Inl e, w2)"
    by (simp add: fetch_batches_def)
  show "run E self w =
        Some (emit (LogException e (''Failed to forward '' @ log_label self @ '' events'')) w2)"
    using a fe run_pass_raises by blast
next
  fix i :: "world DuoV1LogsIterator" and lt and w :: world and d e
  assume "func i = client_call_v1 E lt \<and>
          get_log_v1 E lt (calls w) [(''mintime'', min_time i)] = (d, Inl e)"
  then show "fst (iterator_next (V1 i) w) = Inl e"
    using iterator_next_v1_raises by blast
next
  fix i :: "world DuoV2LogsIterator" and lt and w :: world and d e
  assume "func2 i = client_call_v2 E lt \<and>
          get_log_v2 E lt (calls w) (v2_request i) = (d, Inl e)"
  then show "fst (iterator_next (V2 i) w) = Inl e"
    using iterator_next_v2_raises by blast
next
  fix events and w :: world and d e
  assume "events \<noteq> [] \<and>
      push_events_to_intakes E (calls w)
        (map (orjson_dumps E) (map (\<lambda>e. e\<lparr>eventtype := Some (log_type self)\<rparr>) events))
      = (d, Inl e)"
  then show "fst (forward_page E self events w) = Inl e"
    using forward_page_raises by blast
next
  fix w s
  show "fetch_batches E self (w\<lparr>stop_at := s\<rparr>) =
        map_option (\<lambda>(r, w'). (r, w'\<lparr>stop_at := s\<rparr>)) (fetch_batches E self w)"
    by (rule fetch_batches_stop)
next
  fix w
  assume "\<not> running w"
  then show "run E self w = Some w"
    by (simp add: run.simps [of E self w])
next
  fix w u w1
  assume "running w \<and> fetch_batches E self w = Some (Inr u, w1)"
  then show "run E self w = run E self w1"
    by (simp add: run.simps [of E self w])
qed


text \<open>
  Three runs of a consumer of the administration log with frequency 5. The endpoint
  fails at the second page: the first page was forwarded and slept after, the second
  fetch is logged as failed and \<open>run\<close> has returned. The forwarder fails at the
  second page, after a first page that took 7 seconds: the second page was fetched
  and its cursor saved, the push failed, \<open>run\<close> has returned. The endpoint fails in
  the second pass, after an empty first pass and its idle sleep.
\<close>

theorem worker_failure_is_fatal_witness:
  "run failing_later_env admin_consumer world0 =
     Some (world0\<lparr>clock := 1700000007, calls := 3,
                  cache := [''administration'' \<mapsto> [(''min_time'', PInt 2)]],
                  journal :=
                    [Call ADMINISTRATION [(''mintime'', PInt 0)],
                     Save ''administration'' [(''min_time'', PInt 2)],
                     Incoming 1,
                     Push [''1''],
                     Log ''Fetched and forwarded 1 ADMINISTRATION events in 0 seconds'' ''info'',
                     Outcoming 1,
                     Observe 0,
                     Log ''Next batch of ADMINISTRATION events in the future. Waiting 5 seconds''
                       ''info'',
                     Sleep 5,
                     Call ADMINISTRATION [(''mintime'', PInt 2)],
                     LogException (Error ''RuntimeError'')
                       ''Failed to forward ADMINISTRATION events'']\<rparr>)
   \<and> run failing_second_push_env admin_consumer world0 =
     Some (world0\<lparr>clock := 1700000010, calls := 4,
                  cache := [''administration'' \<mapsto> [(''min_time'', PInt 3)]],
                  journal :=
                    [Call ADMINISTRATION [(''mintime'', PInt 0)],
                     Save ''administration'' [(''min_time'', PInt 1)],
                     Incoming 1,
                     Push [''0''],
                     Log ''Fetched and forwarded 1 ADMINISTRATION events in 7 seconds'' ''info'',
                     Outcoming 1,
                     Observe 7,
                     Call ADMINISTRATION [(''mintime'', PInt 1)],
                     Save ''administration'' [(''min_time'', PInt 3)],
                     Incoming 1,
                     Push [''2''],
                     LogException (Error ''ConnectionError'')
                       ''Failed to forward ADMINISTRATION events'']\<rparr>)
   \<and> run failing_next_pass_env admin_consumer world0 =
     Some (world0\<lparr>clock := 1700000007, calls := 2,
                  journal :=
                    [Call ADMINISTRATION [(''mintime'', PInt 0)],
                     Log ''No new ADMINISTRATION events. Waiting 5 seconds'' ''info'',
                     Sleep 5,
                     Call ADMINISTRATION [(''mintime'', PInt 0)],
                     LogException (Error ''RuntimeError'')
                       ''Failed to forward ADMINISTRATION events'']\<rparr>)"
proof -
  have envA: "get_log_v1 failing_later_env lt n kwargs =
                (if n = 0 then (1, Inr [ev 1]) else (1, Inl (Error ''RuntimeError'')))"
    "push_events_to_intakes failing_later_env n batch = (0, Inr ())"
    "orjson_dumps failing_later_env e = str_int (timestamp e)"
    "LogType_value failing_later_env ADMINISTRATION = ''administration''"
    for lt n kwargs batch e
    by (simp_all add: failing_later_env_def quiet_env_def)
  have envB: "get_log_v1 failing_second_push_env lt n kwargs = (1, Inr [ev (int n)])"
    "push_events_to_intakes failing_second_push_env n batch =
       (if n = 1 then (7, Inr ()) else (1, Inl (Error ''ConnectionError'')))"
    "orjson_dumps failing_second_push_env e = str_int (timestamp e)"
    "LogType_value failing_second_push_env ADMINISTRATION = ''administration''"
    for lt n kwargs batch e
    by (simp_all add: failing_second_push_env_def quiet_env_def)
  have envC: "get_log_v1 failing_next_pass_env lt n kwargs =
                (if n = 0 then (1, Inr []) else (1, Inl (Error ''RuntimeError'')))"
    "LogType_value failing_next_pass_env ADMINISTRATION = ''administration''"
    for lt n kwargs
    by (simp_all add: failing_next_pass_env_def quiet_env_def)
  note defs = envA envB envC
    admin_consumer_def world0_def get_events_iterator_def load_checkpoint_def
    AdminLogsIterator_def DuoV1LogsIterator_init_def DuoV1LogsIterator_next_def
    client_call_v1_def save_checkpoint_def emit_def sleep_def slice_to_def ev_def
    forward_page_def forward_def running_def log_label_def py_int_def str_int_def
    str_nat.simps Let_def
  note A = worker_failure_is_fatal [of failing_later_env admin_consumer]
  note B = worker_failure_is_fatal [of failing_second_push_env admin_consumer]
  note C = worker_failure_is_fatal [of failing_next_pass_env admin_consumer]
  have up: "running world0" by (simp add: defs)

  let ?cbA = "Some (save_checkpoint failing_later_env admin_consumer)"
  let ?itA = "V1 (AdminLogsIterator failing_later_env (PInt 2) 2 ?cbA)"
  let ?wA = "world0\<lparr>clock := 1700000006, calls := 2,
                  cache := [''administration'' \<mapsto> [(''min_time'', PInt 2)]],
                  journal :=
                    [Call ADMINISTRATION [(''mintime'', PInt 0)],
                     Save ''administration'' [(''min_time'', PInt 2)],
                     Incoming 1,
                     Push [''1''],
                     Log ''Fetched and forwarded 1 ADMINISTRATION events in 0 seconds'' ''info'',
                     Outcoming 1,
                     Observe 0,
                     Log ''Next batch of ADMINISTRATION events in the future. Waiting 5 seconds''
                       ''info'',
                     Sleep 5]\<rparr>"
  let ?wAx = "?wA\<lparr>clock := 1700000007, calls := 3,
                  journal := journal ?wA @ [Call ADMINISTRATION [(''mintime'', PInt 2)]]\<rparr>"
  have a0: "passes_done failing_later_env admin_consumer 0 world0 = Some world0" by simp
  have a1: "pages_done failing_later_env admin_consumer (Suc 0)
              (get_events_iterator failing_later_env admin_consumer world0) 0 world0 =
            Some (?itA, 1, ?wA)"
    by (simp add: defs)
  have a2: "iterator_next ?itA ?wA = (Inl (Error ''RuntimeError''), ?itA, ?wAx)"
    by (simp add: defs)
  have rA: "run failing_later_env admin_consumer world0 =
      Some (emit (LogException (Error ''RuntimeError'')
                    (''Failed to forward '' @ log_label admin_consumer @ '' events'')) ?wAx)"
    by (rule A [THEN conjunct2, THEN conjunct2, THEN conjunct1, rule_format,
                OF conjI [OF a0 conjI [OF up conjI [OF a1 a2]]], THEN conjunct2])

  let ?cbB = "Some (save_checkpoint failing_second_push_env admin_consumer)"
  let ?itB = "V1 (AdminLogsIterator failing_second_push_env (PInt 1) 2 ?cbB)"
  let ?itB' = "V1 (AdminLogsIterator failing_second_push_env (PInt 3) 2 ?cbB)"
  let ?wB = "world0\<lparr>clock := 1700000008, calls := 2,
                  cache := [''administration'' \<mapsto> [(''min_time'', PInt 1)]],
                  journal :=
                    [Call ADMINISTRATION [(''mintime'', PInt 0)],
                     Save ''administration'' [(''min_time'', PInt 1)],
                     Incoming 1,
                     Push [''0''],
                     Log ''Fetched and forwarded 1 ADMINISTRATION events in 7 seconds'' ''info'',
                     Outcoming 1,
                     Observe 7]\<rparr>"
  let ?wBx = "?wB\<lparr>clock := 1700000009, calls := 3,
                  cache := [''administration'' \<mapsto> [(''min_time'', PInt 3)]],
                  journal := journal ?wB @ [Call ADMINISTRATION [(''mintime'', PInt 1)],
                                            Save ''administration'' [(''min_time'', PInt 3)]]\<rparr>"
  let ?wBy = "?wBx\<lparr>clock := 1700000010, calls := 4,
                  journal := journal ?wBx @ [Incoming 1, Push [''2'']]\<rparr>"
  have b0: "passes_done failing_second_push_env admin_consumer 0 world0 = Some world0" by simp
  have b1: "pages_done failing_second_push_env admin_consumer (Suc 0)
              (get_events_iterator failing_second_push_env admin_consumer world0) 0 world0 =
            Some (?itB, 1, ?wB)"
    by (simp add: defs)
  have b2: "iterator_next ?itB ?wB = (Inr [ev 2], ?itB', ?wBx)"
    by (simp add: defs)
  have b3: "forward_page failing_second_push_env admin_consumer [ev 2] ?wBx =
            (Inl (Error ''ConnectionError''), ?wBy)"
    by (simp add: defs)
  have rB: "run failing_second_push_env admin_consumer world0 =
      Some (emit (LogException (Error ''ConnectionError'')
                    (''Failed to forward '' @ log_label admin_consumer @ '' events'')) ?wBy)"
    by (rule B [THEN conjunct2, THEN conjunct2, THEN conjunct2, THEN conjunct1, rule_format,
                OF conjI [OF b0 conjI [OF up conjI [OF b1 conjI [OF b2 b3]]]], THEN conjunct2])

  let ?cbC = "Some (save_checkpoint failing_next_pass_env admin_consumer)"
  let ?itC = "V1 (AdminLogsIterator failing_next_pass_env PNone 2 ?cbC)"
  let ?wCs = "world0\<lparr>clock := 1700000001, calls := 1,
                  journal := [Call ADMINISTRATION [(''mintime'', PInt 0)]]\<rparr>"
  let ?wC = "world0\<lparr>clock := 1700000006, calls := 1,
                  journal :=
                    [Call ADMINISTRATION [(''mintime'', PInt 0)],
                     Log ''No new ADMINISTRATION events. Waiting 5 seconds'' ''info'',
                     Sleep 5]\<rparr>"
  let ?wCx = "?wC\<lparr>clock := 1700000007, calls := 2,
                  journal := journal ?wC @ [Call ADMINISTRATION [(''mintime'', PInt 0)]]\<rparr>"
  have itC: "get_events_iterator failing_next_pass_env admin_consumer world0 = ?itC"
    by (simp add: defs)
  have itC': "get_events_iterator failing_next_pass_env admin_consumer ?wC = ?itC"
    by (simp add: defs)
  have nC: "iterator_next ?itC world0 = (Inl StopIteration, ?itC, ?wCs)"
    by (simp add: defs)
  have fC: "for_events failing_next_pass_env admin_consumer ?itC 0 world0 = Some (Inr 0, ?wCs)"
    using nC by (simp add: for_events.simps [of failing_next_pass_env admin_consumer ?itC 0 world0])
  have pC: "fetch_batches failing_next_pass_env admin_consumer world0 = Some (Inr (), ?wC)"
    using fC itC by (simp add: fetch_batches_def) (simp add: defs)
  have c0: "passes_done failing_next_pass_env admin_consumer (Suc 0) world0 = Some ?wC"
    using up pC by simp
  have upC: "running ?wC" by (simp add: defs)
  have c1: "pages_done failing_next_pass_env admin_consumer 0
              (get_events_iterator failing_next_pass_env admin_consumer ?wC) 0 ?wC =
            Some (?itC, 0, ?wC)"
    using itC' by simp
  have c2: "iterator_next ?itC ?wC = (Inl (Error ''RuntimeError''), ?itC, ?wCx)"
    by (simp add: defs)
  have rC: "run failing_next_pass_env admin_consumer world0 =
      Some (emit (LogException (Error ''RuntimeError'')
                    (''Failed to forward '' @ log_label admin_consumer @ '' events'')) ?wCx)"
    by (rule C [THEN conjunct2, THEN conjunct2, THEN conjunct1, rule_format,
                OF conjI [OF c0 conjI [OF upC conjI [OF c1 c2]]], THEN conjunct2])

  show ?thesis
    using rA rB rC by (simp add: emit_def log_label_def admin_consumer_def world0_def)
qed

section \<open>Checkpoints move forward\<close>

lemma saved_values_append [simp]:
  "saved_values key (xs @ ys) = saved_values key xs @ saved_values key ys"
  by (induction key xs rule: saved_values.induct) simp_all

lemma slice_to_subset: "set (slice_to xs n) \<subseteq> set xs"
  by (auto simp: slice_to_def dest: in_set_takeD)

lemma v1_step_saves:
  assumes src: "honours_mintime E"
    and f: "func i = client_call_v1 E lt"
    and cb: "callback i = Some (save_checkpoint E self)"
    and nx: "DuoV1LogsIterator_next i w = (r, i', w')"
  shows "func i' = client_call_v1 E lt \<and> callback i' = Some (save_checkpoint E self) \<and>
         (\<exists>ext. journal w' = journal w @ ext \<and>
            ((min_time i' = min_time i \<and> saved_values (LogType_value E (log_type self)) ext = []) \<or>
             (\<exists>c'. min_time i' = PInt c' \<and>
                   saved_values (LogType_value E (log_type self)) ext = [PInt c'] \<and>
                   (\<forall>c. min_time i = PInt c \<longrightarrow> c < c'))))"
proof -
  obtain d res where g: "get_log_v1 E lt (calls w) [(''mintime'', min_time i)] = (d, res)"
    by (cases "get_log_v1 E lt (calls w) [(''mintime'', min_time i)]")
  let ?w1 = "emit (Call lt [(''mintime'', min_time i)])
               (w\<lparr>clock := clock w + d, calls := calls w + 1\<rparr>)"
  have call: "func i [(''mintime'', min_time i)] w = (res, ?w1)"
    using f g by (simp add: client_call_v1_def)
  show ?thesis
  proof (cases res)
    case (Inl e)
    then show ?thesis
      using call nx f cb by (auto simp: DuoV1LogsIterator_next_def emit_def)
  next
    case (Inr fetched)
    let ?page = "slice_to (sort_key timestamp fetched) (limit i)"
    show ?thesis
    proof (cases "?page = []")
      case True
      then show ?thesis
        using call nx f cb Inr by (auto simp: DuoV1LogsIterator_next_def emit_def Let_def)
    next
      case False
      then have "last ?page \<in> set ?page" by simp
      then have mem: "last ?page \<in> set fetched"
        using slice_to_subset [of "sort_key timestamp fetched" "limit i"] by auto
      have later: "\<forall>c. min_time i = PInt c \<longrightarrow> c < timestamp (last ?page) + 1"
      proof (intro allI impI)
        fix c assume "min_time i = PInt c"
        then have "c \<le> timestamp (last ?page)"
          using src g Inr mem unfolding honours_mintime_def
          by (metis dict_get_simps(2))
        then show "c < timestamp (last ?page) + 1" by simp
      qed
      show ?thesis
        using call nx f cb Inr False later
        by (auto simp: DuoV1LogsIterator_next_def save_checkpoint_def emit_def Let_def)
    qed
  qed
qed


lemma iterate_saves:
  assumes src: "honours_mintime E"
  shows "func i = client_call_v1 E lt \<Longrightarrow> callback i = Some (save_checkpoint E self) \<Longrightarrow>
         iterate n (V1 i) w = (it', w') \<Longrightarrow>
         \<exists>ext. journal w' = journal w @ ext \<and>
           sorted_wrt cursor_less (saved_values (LogType_value E (log_type self)) ext) \<and>
           (\<forall>v \<in> set (saved_values (LogType_value E (log_type self)) ext).
              \<exists>m. v = PInt m \<and> (\<forall>c. min_time i = PInt c \<longrightarrow> c < m))"
proof (induction n arbitrary: i w)
  case 0
  then show ?case by simp
next
  case (Suc n)
  let ?key = "LogType_value E (log_type self)"
  obtain r i1 w1 where nx: "DuoV1LogsIterator_next i w = (r, i1, w1)"
    by (cases "DuoV1LogsIterator_next i w")
  from v1_step_saves [OF src Suc.prems(1) Suc.prems(2) nx]
  obtain ext1 where f1: "func i1 = client_call_v1 E lt"
    and cb1: "callback i1 = Some (save_checkpoint E self)"
    and j1: "journal w1 = journal w @ ext1"
    and alt: "(min_time i1 = min_time i \<and> saved_values ?key ext1 = []) \<or>
              (\<exists>c'. min_time i1 = PInt c' \<and> saved_values ?key ext1 = [PInt c'] \<and>
                    (\<forall>c. min_time i = PInt c \<longrightarrow> c < c'))"
    by blast
  have rest: "iterate n (V1 i1) w1 = (it', w')"
    using Suc.prems(3) nx by simp
  from Suc.IH [OF f1 cb1 rest]
  obtain ext2 where j2: "journal w' = journal w1 @ ext2"
    and s2: "sorted_wrt cursor_less (saved_values ?key ext2)"
    and b2: "\<forall>v \<in> set (saved_values ?key ext2).
               \<exists>m. v = PInt m \<and> (\<forall>c. min_time i1 = PInt c \<longrightarrow> c < m)"
    by blast
  have j: "journal w' = journal w @ (ext1 @ ext2)"
    using j1 j2 by simp
  from alt show ?case
  proof
    assume a: "min_time i1 = min_time i \<and> saved_values ?key ext1 = []"
    then have "sorted_wrt cursor_less (saved_values ?key (ext1 @ ext2))"
      and "\<forall>v \<in> set (saved_values ?key (ext1 @ ext2)).
             \<exists>m. v = PInt m \<and> (\<forall>c. min_time i = PInt c \<longrightarrow> c < m)"
      using s2 b2 by simp_all
    with j show ?thesis by blast
  next
    assume "\<exists>c'. min_time i1 = PInt c' \<and> saved_values ?key ext1 = [PInt c'] \<and>
                 (\<forall>c. min_time i = PInt c \<longrightarrow> c < c')"
    then obtain c' where c1: "min_time i1 = PInt c'"
      and sv: "saved_values ?key ext1 = [PInt c']"
      and up: "\<forall>c. min_time i = PInt c \<longrightarrow> c < c'"
      by blast
    have above: "\<forall>v \<in> set (saved_values ?key ext2). \<exists>m. v = PInt m \<and> c' < m"
      using b2 c1 by simp
    have "sorted_wrt cursor_less (saved_values ?key (ext1 @ ext2))"
      using sv s2 above by auto
    moreover have "\<forall>v \<in> set (saved_values ?key (ext1 @ ext2)).
             \<exists>m. v = PInt m \<and> (\<forall>c. min_time i = PInt c \<longrightarrow> c < m)"
      using sv above up by fastforce
    ultimately show ?thesis using j by blast
  qed
qed

text \<open>
  Claim C5, as it stands, covers the offset-cursor iterator too. That iterator saves
  the \<open>next_offset\<close> of each response as it comes: when the source answers with the
  offset \<open>o2\<close> and then with \<open>o1\<close>, the consumer of the authentication log saves
  \<open>o2\<close> and then \<open>o1\<close>, which is not greater.
\<close>

theorem checkpoint_forward_counterexample:
  "saved_values ''authentication''
     (journal (snd (iterate 2 (get_events_iterator receding_env auth_consumer world0) world0)))
   = [PStr ''o2'', PStr ''o1''] \<and>
   \<not> cursor_less (PStr ''o2'') (PStr ''o1'')"
  by (simp add: receding_env_def quiet_env_def auth_consumer_def world0_def page_of_def ev_def
        get_events_iterator_def load_checkpoint_def AuthLogsIterator_def
        DuoV2LogsIterator_init_def DuoV2LogsIterator_next_def v2_request_def client_call_v2_def
        save_checkpoint_def emit_def Let_def eval_nat_numeral)

text \<open>
  Claim C5, amended. For a time-cursor log type and a source that returns no record
  older than the \<open>mintime\<close> it is asked with, whatever the number of steps of the
  iterator of a pass: the steps only add to the journal, the values they hand to
  \<open>save_checkpoint\<close> are integers in strictly increasing order, and each is greater
  than the \<open>min_time\<close> that was stored when the pass began.
\<close>

theorem time_cursor_moves_forward:
  assumes src: "honours_mintime E"
    and v1: "log_type self = ADMINISTRATION \<or> log_type self = OFFLINE"
  shows "let key = LogType_value E (log_type self);
             w' = snd (iterate n (get_events_iterator E self w) w);
             new = drop (length (journal w)) (journal w')
         in take (length (journal w)) (journal w') = journal w \<and>
            sorted_wrt cursor_less (saved_values key new) \<and>
            (\<forall>v \<in> set (saved_values key new).
               \<exists>m. v = PInt m \<and>
                   (\<forall>p. dict_get (load_checkpoint E self w) ''min_time'' = PInt p \<longrightarrow> p < m))"
proof -
  let ?key = "LogType_value E (log_type self)"
  let ?mt = "dict_get (load_checkpoint E self w) ''min_time''"
  obtain i lt where it: "get_events_iterator E self w = V1 i"
    and f: "func i = client_call_v1 E lt"
    and cb: "callback i = Some (save_checkpoint E self)"
    and mt: "min_time i = (if truthy ?mt then ?mt else PInt 0)"
    using v1
    by (auto simp: get_events_iterator_def AdminLogsIterator_def OfflineLogsIterator_def
          DuoV1LogsIterator_init_def Let_def)
  obtain it' w' where run: "iterate n (V1 i) w = (it', w')"
    by (cases "iterate n (V1 i) w")
  from iterate_saves [OF src f cb run]
  obtain ext where j: "journal w' = journal w @ ext"
    and s: "sorted_wrt cursor_less (saved_values ?key ext)"
    and b: "\<forall>v \<in> set (saved_values ?key ext).
              \<exists>m. v = PInt m \<and> (\<forall>c. min_time i = PInt c \<longrightarrow> c < m)"
    by blast
  have start: "\<forall>p. ?mt = PInt p \<longrightarrow> min_time i = PInt p"
    using mt by auto
  have b': "\<forall>v \<in> set (saved_values ?key ext).
              \<exists>m. v = PInt m \<and> (\<forall>p. ?mt = PInt p \<longrightarrow> p < m)"
    using b start by blast
  show ?thesis
    using it run j s b' by (simp add: Let_def)
qed


lemma admin_env_honours_mintime: "honours_mintime admin_env"
  by (auto simp: honours_mintime_def admin_env_def quiet_env_def events_since_def)

text \<open>
  The events 100, 101, 105 with pages of two: three steps save 102, then 106, then
  nothing.
\<close>

theorem time_cursor_moves_forward_witness:
  "saved_values ''administration''
     (journal (snd (iterate 3 (get_events_iterator admin_env admin_consumer world0) world0)))
   = [PInt 102, PInt 106]"
  using time_cursor_moves_forward [OF admin_env_honours_mintime, of admin_consumer 3 world0]
  by (simp add: admin_env_def quiet_env_def admin_consumer_def world0_def events_since_def ev_def
        get_events_iterator_def load_checkpoint_def AdminLogsIterator_def
        DuoV1LogsIterator_init_def DuoV1LogsIterator_next_def client_call_v1_def
        save_checkpoint_def emit_def slice_to_def Let_def eval_nat_numeral)

end
